theory Spec2Isabelle
  imports Complex_Main "HOL-Library.AList"
begin

section \<open>The rooms router of CompensationAPI\<close>

text \<open>
  A shallow embedding of the room endpoints (the router mounted at \<open>/api/rooms\<close>): the two
  permission middlewares \<open>canViewRoom\<close> and \<open>requiresRoomPermission\<close>, the helper
  \<open>roomAuditLog\<close>, and every route handler that reads or writes the \<open>rooms\<close> collection.

  Conventions of the embedding.
  \<^item> A JavaScript object read from the store or from a request is an association list of
    its own enumerable properties, keys distinct and in enumeration order;
    \<open>Object.keys(o)\<close> is \<open>map fst o\<close>.
    Property reads that can fall through to \<open>Object.prototype\<close> are modelled where the
    source performs them on a key chosen by the caller (\<open>Object_prototype\<close> below).
  \<^item> The document store is a record of collections. \<open>updateOne\<close> with a path
    \<open>field.<name>\<close> is modelled as binding the key \<open>name\<close> of \<open>field\<close>, which is what the
    store does for a non-empty name without a dot; a name containing a dot would address
    a nested field of the stored document instead. An update operator with no field
    (\<open>$set: {}\<close>) changes nothing. The route parameters are strings, so the test
    \<open>typeof id != 'string'\<close> of the middlewares never fires and is left out.
  \<^item> Requests are handled one at a time: a handler is a function from the store to a
    response and the next store. The handler that creates a version is given a second
    time as the two steps between which another request can be served. An exception caught by a handler's \<open>catch\<close> block is the
    500 response of that block; an exception in a middleware, which has no \<open>catch\<close>,
    leaves the request without a response (\<open>NoResponse\<close>).
  \<^item> JavaScript numbers that the router only carries (scene indices, timestamps) are reals
    or naturals; numbers it parses and compares (\<open>parseInt\<close>) are exact integers, with
    \<open>None\<close> for \<open>NaN\<close>.
  \<^item> The file and webhook sink \<open>auditLog\<close> of the helpers module and the WebSocket
    notifications are collaborators outside the store and are left out; they are assumed
    not to throw.
\<close>

subsection \<open>JavaScript values\<close>

datatype json =
    JNull
  | JBool bool
  | JNum real
  | JStr string
  | JArr "json list"
  | JObj "(string \<times> json) list"

datatype js_type = T_undefined | T_object | T_boolean | T_number | T_string

text \<open>\<open>typeof v\<close>, where \<open>None\<close> is \<open>undefined\<close>. \<open>typeof null\<close> is \<open>'object'\<close>.\<close>

fun typeof :: "json option \<Rightarrow> js_type" where
  "typeof None = T_undefined"
| "typeof (Some JNull) = T_object"
| "typeof (Some (JBool b)) = T_boolean"
| "typeof (Some (JNum n)) = T_number"
| "typeof (Some (JStr s)) = T_string"
| "typeof (Some (JArr xs)) = T_object"
| "typeof (Some (JObj kvs)) = T_object"

text \<open>The truthiness of a value in a condition.\<close>

fun truthy :: "json option \<Rightarrow> bool" where
  "truthy None = False"
| "truthy (Some JNull) = False"
| "truthy (Some (JBool b)) = b"
| "truthy (Some (JNum n)) = (n \<noteq> 0)"
| "truthy (Some (JStr s)) = (s \<noteq> [])"
| "truthy (Some (JArr xs)) = True"
| "truthy (Some (JObj kvs)) = True"

text \<open>
  \<open>v.k\<close> and \<open>v?.k\<close> for the keys the handlers read from a request body (none of them is a
  property of a string, an array or \<open>Object.prototype\<close>). Reading a property of \<open>null\<close>
  throws; the handlers test \<open>is_nullish\<close> where the source would throw.
\<close>

fun js_prop :: "json \<Rightarrow> string \<Rightarrow> json option" where
  "js_prop (JObj kvs) k = map_of kvs k"
| "js_prop _ k = None"

fun opt_prop :: "json option \<Rightarrow> string \<Rightarrow> json option" where
  "opt_prop None k = None"
| "opt_prop (Some v) k = js_prop v k"

fun isArray :: "json option \<Rightarrow> bool" where
  "isArray (Some (JArr xs)) = True"
| "isArray _ = False"

text \<open>\<open>s.includes(p)\<close> on strings.\<close>

fun str_includes :: "string \<Rightarrow> string \<Rightarrow> bool" where
  "str_includes [] p = (p = [])"
| "str_includes (c # cs) p = (take (length p) (c # cs) = p \<or> str_includes cs p)"

text \<open>\<open>s.indexOf(p)\<close>, with \<open>None\<close> for \<open>-1\<close>.\<close>

fun indexOf :: "string \<Rightarrow> string \<Rightarrow> nat option" where
  "indexOf [] p = (if p = [] then Some 0 else None)"
| "indexOf (c # cs) p =
     (if take (length p) (c # cs) = p then Some 0
      else map_option Suc (indexOf cs p))"

text \<open>\<open>n.toString()\<close> for a non-negative integer.\<close>

definition digit_char :: "nat \<Rightarrow> char" where
  "digit_char d = ''0123456789'' ! d"

fun nat_toString :: "nat \<Rightarrow> string" where
  "nat_toString n =
     (if n < 10 then [digit_char n] else nat_toString (n div 10) @ [digit_char (n mod 10)])"

declare nat_toString.simps [simp del]

definition int_toString :: "int \<Rightarrow> string" where
  "int_toString i = (if i < 0 then CHR ''-'' # nat_toString (nat (- i)) else nat_toString (nat i))"

text \<open>
  \<open>parseInt(s)\<close> with no radix: leading white space is skipped, then an optional sign,
  then an optional \<open>0x\<close> prefix selecting radix 16, then the longest run of digits of the
  radix; no digit at all gives \<open>NaN\<close> (\<open>None\<close>). Strings are byte strings here, so only the
  ASCII white space characters are recognised.
\<close>

definition is_space :: "char \<Rightarrow> bool" where
  "is_space c = (c \<in> set [CHR 0x09, CHR 0x0A, CHR 0x0B, CHR 0x0C, CHR 0x0D, CHR 0x20])"

definition digit_value :: "char \<Rightarrow> nat option" where
  "digit_value c =
     (let n = of_char c :: nat in
      if 48 \<le> n \<and> n \<le> 57 then Some (n - 48)
      else if 97 \<le> n \<and> n \<le> 122 then Some (n - 87)
      else if 65 \<le> n \<and> n \<le> 90 then Some (n - 55)
      else None)"

definition is_digit :: "nat \<Rightarrow> char \<Rightarrow> bool" where
  "is_digit radix c = (case digit_value c of None \<Rightarrow> False | Some d \<Rightarrow> d < radix)"

fun digits_value :: "nat \<Rightarrow> nat \<Rightarrow> string \<Rightarrow> nat" where
  "digits_value radix acc [] = acc"
| "digits_value radix acc (c # cs) =
     digits_value radix (acc * radix + (case digit_value c of None \<Rightarrow> 0 | Some d \<Rightarrow> d)) cs"

definition parse_digits :: "nat \<Rightarrow> string \<Rightarrow> nat option" where
  "parse_digits radix s =
     (let ds = takeWhile (is_digit radix) s in
      if ds = [] then None else Some (digits_value radix 0 ds))"

definition parse_unsigned :: "string \<Rightarrow> nat option" where
  "parse_unsigned s =
     (if take 2 s = ''0x'' \<or> take 2 s = ''0X'' then parse_digits 16 (drop 2 s)
      else parse_digits 10 s)"

definition parseInt :: "string \<Rightarrow> int option" where
  "parseInt str =
     (let s = dropWhile is_space str in
      case s of
        [] \<Rightarrow> None
      | c # cs \<Rightarrow>
          if c = CHR ''-'' then map_option (\<lambda>n. - int n) (parse_unsigned cs)
          else if c = CHR ''+'' then map_option int (parse_unsigned cs)
          else map_option int (parse_unsigned s))"

text \<open>
  The names every plain object inherits from \<open>Object.prototype\<close>; \<open>o[k]\<close> for such a
  name that is not an own property of \<open>o\<close> is a built-in function (or the prototype
  itself), which is truthy.
\<close>

definition Object_prototype :: "string list" where
  "Object_prototype =
     [''constructor'', ''__defineGetter__'', ''__defineSetter__'', ''hasOwnProperty'',
      ''__lookupGetter__'', ''__lookupSetter__'', ''isPrototypeOf'', ''propertyIsEnumerable'',
      ''toString'', ''valueOf'', ''__proto__'', ''toLocaleString'']"

subsection \<open>The room document\<close>

type_synonym vec3 = "real \<times> real \<times> real"
type_synonym quat = "real \<times> real \<times> real \<times> real"

record spawn =
  position :: vec3
  rotation :: quat

record version =
  baseSceneIndex :: real
  spawn :: spawn
  shortHandCommitMessage :: string
  longHandCommitMessage :: string
  author :: string
  collaborators :: "string list"
  associated_file :: bool

text \<open>
  \<open>publicVersionId\<close> is the number \<open>0\<close> in a new subroom and whatever string the
  set-public-version request carried afterwards.
\<close>

datatype version_id = Id_number int | Id_string string

record subroom =
  publicVersionId :: version_id
  maxPlayers :: int
  versions :: "version list"

type_synonym permissions = "(string \<times> bool) list"

record report =
  reason :: string
  alleges_illegal_content :: bool
  alleges_danger_of_harm :: bool
  reporting_user_id :: string
  time :: nat

record room =
  doc_id :: string
  name :: string
  description :: string
  creator_id :: string
  tags :: "string list"
  created_at :: nat
  visits :: nat
  subrooms :: "(string \<times> subroom) list"
  homeSubroomId :: string
  rolePermissions :: "(string \<times> permissions) list"
  userPermissions :: "(string \<times> string) list"
  cover_image_id :: string
  contentFlags :: "(string \<times> string) list"
  reports :: "report list"

text \<open>
  \<open>rolePermissions[role]\<close>: the role's own permission object, a member of
  \<open>Object.prototype\<close> when the role name is not an own key but names one, and \<open>undefined\<close>
  otherwise.
\<close>

datatype role_object = Own_role permissions | Builtin_member string | Undefined_role

definition lookup_role :: "(string \<times> permissions) list \<Rightarrow> string \<Rightarrow> role_object" where
  "lookup_role rp role =
     (case map_of rp role of
        Some p \<Rightarrow> Own_role p
      | None \<Rightarrow> if role \<in> set Object_prototype then Builtin_member role else Undefined_role)"

subsection \<open>Audit events\<close>

datatype AuditEventType =
    RoomCreate
  | SubroomCreate
  | SubroomDelete
  | SubroomMaxPlayerUpdate
  | HomeSubroomSet
  | UserRoleUpdate
  | RoleCreated
  | RolePermissionsUpdate
  | RoleDeleted
  | TagUpdate
  | DescriptionUpdate
  | ChangesetCreation
  | PublicVersionUpdate
  | ContentFlagsUpdate
  | RoomSuspendedByDeveloper
  | RoomTerminatedByDeveloper
  | RoomTerminatedByDeveloperForIllegalContent

text \<open>The string each event type is coded as.\<close>

fun event_code :: "AuditEventType \<Rightarrow> string" where
  "event_code RoomCreate = ''room_created''"
| "event_code SubroomCreate = ''subroom_created''"
| "event_code SubroomDelete = ''subroom_deleted''"
| "event_code SubroomMaxPlayerUpdate = ''subroom_max_players_updated''"
| "event_code HomeSubroomSet = ''home_subroom_updated''"
| "event_code UserRoleUpdate = ''user_roles_updated''"
| "event_code RoleCreated = ''role_created''"
| "event_code RolePermissionsUpdate = ''role_permissions_updated''"
| "event_code RoleDeleted = ''role_deleted''"
| "event_code TagUpdate = ''tags_updated''"
| "event_code DescriptionUpdate = ''description_updated''"
| "event_code ChangesetCreation = ''changeset_created''"
| "event_code PublicVersionUpdate = ''public_version_updated''"
| "event_code ContentFlagsUpdate = ''content_flags_updated''"
| "event_code RoomSuspendedByDeveloper = ''room_suspended''"
| "event_code RoomTerminatedByDeveloper = ''room_terminated''"
| "event_code RoomTerminatedByDeveloperForIllegalContent = ''room_terminated_for_illegal_content''"

text \<open>The values an event carries as \<open>previous_value\<close>, \<open>new_value\<close> and \<open>note\<close>.\<close>

datatype audit_value =
    A_undefined
  | A_null
  | A_string string
  | A_number int
  | A_json json
  | A_permissions permissions
  | A_builtin string
  | A_subroom subroom
  | A_version_id version_id

record event_data =
  event_type :: AuditEventType
  previous_value :: audit_value
  new_value :: audit_value
  event_note :: audit_value

record audit_event =
  room_id :: string
  user_id :: string
  event_time :: nat
  event_data :: event_data

fun role_object_value :: "role_object \<Rightarrow> audit_value" where
  "role_object_value (Own_role p) = A_permissions p"
| "role_object_value (Builtin_member m) = A_builtin m"
| "role_object_value Undefined_role = A_undefined"

subsection \<open>The store and the environment of a request\<close>

text \<open>The bytes \<open>Buffer.from(body, 'base64')\<close> yields, named by the body they decode.\<close>

datatype buffer = Buffer_from json

record notification =
  template :: string
  headerText :: string
  bodyText :: string

text \<open>
  The collections \<open>rooms\<close>, \<open>room_audit\<close>, \<open>accounts\<close> (only the notifications pushed to an
  account) and \<open>images\<close> (only \<open>takenInRoomId\<close>), and the files of the storage bucket.
\<close>

record store =
  rooms :: "(string \<times> room) list"
  room_audit :: "audit_event list"
  accounts :: "(string \<times> notification list) list"
  images :: "(int \<times> string) list"
  files :: "(string \<times> buffer) list"

text \<open>
  What a request finds outside the store: the clock (\<open>Date.now()\<close>), the next \<open>v1()\<close>
  identifier, whether \<open>insertOne\<close> on \<open>room_audit\<close> fails, the truthiness of a property
  of a built-in member of \<open>Object.prototype\<close>, and whether \<open>Buffer.from(v, 'base64')\<close>
  throws for a value \<open>v\<close> that is not a string (it never throws for a string).
\<close>

record env =
  now :: nat
  uuid :: string
  audit_insert_fails :: bool
  builtin_truthy :: "string \<Rightarrow> string \<Rightarrow> bool"
  buffer_from_throws :: "json \<Rightarrow> bool"

text \<open>\<open>req.user\<close>, as the authentication middleware leaves it.\<close>

record user =
  uid :: string
  developer :: bool

definition findOne :: "store \<Rightarrow> string \<Rightarrow> room option" where
  "findOne st rid = map_of (rooms st) rid"

text \<open>\<open>updateOne\<close> on the room with the given id; no room, no change.\<close>

definition updateOne :: "string \<Rightarrow> (room \<Rightarrow> room) \<Rightarrow> store \<Rightarrow> store" where
  "updateOne rid f st =
     (case map_of (rooms st) rid of
        None \<Rightarrow> st
      | Some r \<Rightarrow> st\<lparr>rooms := AList.update rid (f r) (rooms st)\<rparr>)"

definition deleteOne :: "string \<Rightarrow> store \<Rightarrow> store" where
  "deleteOne rid st = st\<lparr>rooms := AList.delete rid (rooms st)\<rparr>"

text \<open>
  \<open>roomAuditLog\<close>: one event appended to \<open>room_audit\<close>, stamped with the clock; \<open>None\<close>
  when the insertion throws.
\<close>

definition roomAuditLog :: "env \<Rightarrow> string \<Rightarrow> string \<Rightarrow> event_data \<Rightarrow> store \<Rightarrow> store option" where
  "roomAuditLog e rid usr ev st =
     (if audit_insert_fails e then None
      else Some (st\<lparr>room_audit := room_audit st @
             [\<lparr>room_id = rid, user_id = usr, event_time = now e, event_data = ev\<rparr>]\<rparr>))"

text \<open>A call of \<open>roomAuditLog\<close> that is not awaited: its failure never reaches the handler.\<close>

definition roomAuditLog_detached :: "env \<Rightarrow> string \<Rightarrow> string \<Rightarrow> event_data \<Rightarrow> store \<Rightarrow> store" where
  "roomAuditLog_detached e rid usr ev st =
     (case roomAuditLog e rid usr ev st of None \<Rightarrow> st | Some st' \<Rightarrow> st')"

subsection \<open>Responses\<close>

record room_visible =
  v_id :: string
  v_name :: string
  v_description :: string
  v_creator_id :: string
  v_tags :: "string list"
  v_created_at :: nat
  v_visits :: nat
  v_homeSubroomId :: string
  v_cover_image_id :: string
  v_contentFlags :: "(string \<times> string) list"

datatype response =
    Json nat "(string \<times> json) list"
  | SendStatus nat
  | Room_info nat room_visible
  | NoResponse

definition code_message :: "nat \<Rightarrow> string \<Rightarrow> string \<Rightarrow> response" where
  "code_message status c m = Json status [(''code'', JStr c), (''message'', JStr m)]"

definition message_only :: "nat \<Rightarrow> string \<Rightarrow> response" where
  "message_only status m = Json status [(''message'', JStr m)]"

subsection \<open>The permission middlewares\<close>

text \<open>
  The role of a user in a room: the own entry of \<open>userPermissions\<close>, else \<open>everyone\<close>.
\<close>

definition role_of :: "room \<Rightarrow> string \<Rightarrow> string" where
  "role_of r u =
     (if u \<in> set (map fst (userPermissions r))
      then (case map_of (userPermissions r) u of Some x \<Rightarrow> x | None \<Rightarrow> ''everyone'')
      else ''everyone'')"

text \<open>
  The truthiness of \<open>obj[k]\<close> for a role object; \<open>None\<close> when \<open>obj\<close> is \<open>undefined\<close> and the
  read throws a \<open>TypeError\<close>.
\<close>

fun holds :: "env \<Rightarrow> role_object \<Rightarrow> string \<Rightarrow> bool option" where
  "holds e (Own_role p) k =
     Some (case map_of p k of Some b \<Rightarrow> b | None \<Rightarrow> k \<in> set Object_prototype)"
| "holds e (Builtin_member m) k = Some (builtin_truthy e m k)"
| "holds e Undefined_role k = None"

text \<open>What a middleware leaves on the request for the handler.\<close>

record ctx =
  req_room :: room
  userRoomRole :: "(string \<times> string) list"
  userRoomPermissions :: role_object

datatype gate = Next ctx | Stop response

definition pass :: "room \<Rightarrow> string \<Rightarrow> gate" where
  "pass r role =
     Next \<lparr>req_room = r, userRoomRole = userPermissions r,
           userRoomPermissions = lookup_role (rolePermissions r) role\<rparr>"


definition requiresRoomPermission :: "string \<Rightarrow> env \<Rightarrow> store \<Rightarrow> user \<Rightarrow> string \<Rightarrow> gate" where
  "requiresRoomPermission permission e st u rid =
     (case findOne st rid of
        None \<Rightarrow> Stop (code_message 404 ''room_not_found'' ''Room not found.'')
      | Some r \<Rightarrow>
          let role = role_of r (uid u) in
          if developer u then pass r role
          else (case holds e (lookup_role (rolePermissions r) role) permission of
                  None \<Rightarrow> Stop NoResponse
                | Some h \<Rightarrow>
                    if \<not> h \<and> role \<noteq> ''owner''
                    then Stop (code_message 404 ''room_not_found'' ''Access denied.'')
                    else pass r role))"

subsection \<open>Role administration\<close>

definition success :: "string \<Rightarrow> response" where
  "success m = code_message 200 ''success'' m"

text \<open>
  \<open>await roomAuditLog(...)\<close> followed by the handler's last response, inside \<open>try\<close>: when
  the insertion throws, the \<open>catch\<close> block answers instead.
\<close>

definition audited ::
  "env \<Rightarrow> string \<Rightarrow> string \<Rightarrow> event_data \<Rightarrow> response \<Rightarrow> response \<Rightarrow> store \<Rightarrow> response \<times> store" where
  "audited e rid usr ev ok err st =
     (case roomAuditLog e rid usr ev st of None \<Rightarrow> (err, st) | Some st' \<Rightarrow> (ok, st'))"

fun the_string :: "json option \<Rightarrow> string" where
  "the_string (Some (JStr s)) = s"
| "the_string _ = []"

fun the_bool :: "json \<Rightarrow> bool" where
  "the_bool (JBool b) = b"
| "the_bool _ = False"

text \<open>\<open>PUT /room/:id/roles/new\<close>\<close>

definition roles_new_error :: response where
  "roles_new_error =
     code_message 500 ''internal_error''
       ''An internal error occurred and we could not serve your request.''"

definition roles_new :: "env \<Rightarrow> store \<Rightarrow> user \<Rightarrow> string \<Rightarrow> json \<Rightarrow> response \<times> store" where
  "roles_new e st u rid body =
     (case requiresRoomPermission ''managePermissions'' e st u rid of
        Stop r \<Rightarrow> (r, st)
      | Next c \<Rightarrow>
          if body = JNull then (roles_new_error, st)
          else let name = js_prop body ''name'' in
          if typeof name \<noteq> T_string
          then (code_message 400 ''invalid_input'' ''Body field 'name' must be a string.'', st)
          else if the_string name \<in> set [''owner'', ''everyone'']
          then (code_message 400 ''invalid_input''
                  ''Cannot create a role with a reserved name like 'owner' or 'everyone'.'', st)
          else (case findOne st rid of
                  None \<Rightarrow> (roles_new_error, st)
                | Some room \<Rightarrow>
                    if the_string name \<in> set (map fst (rolePermissions room))
                    then (code_message 400 ''invalid_input''
                            ''Cannot create a role with the same name as one that already exists.'', st)
                    else audited e rid (uid u)
                           \<lparr>event_type = RoleCreated, previous_value = A_null,
                            new_value = A_string (the_string name), event_note = A_null\<rparr>
                           (success ''Successfully created role.'') roles_new_error
                           (updateOne rid
                              (\<lambda>r. r\<lparr>rolePermissions :=
                                        AList.update (the_string name) [] (rolePermissions r)\<rparr>) st)))"

text \<open>\<open>POST /room/:id/roles/:role_name/update\<close>\<close>

text \<open>
  The properties \<open>for (const key in permissions)\<close> visits and \<open>hasOwnProperty\<close> keeps:
  none for \<open>undefined\<close>, \<open>null\<close>, a boolean or a number, the indices of a string or an
  array, the own keys of an object.
\<close>

fun for_in :: "json option \<Rightarrow> (string \<times> json) list" where
  "for_in (Some (JObj kvs)) = kvs"
| "for_in (Some (JArr xs)) = map (\<lambda>i. (nat_toString i, xs ! i)) [0..<length xs]"
| "for_in (Some (JStr s)) = map (\<lambda>i. (nat_toString i, JStr [s ! i])) [0..<length s]"
| "for_in _ = []"

text \<open>
  \<open>req.userRoomRole != "owner"\<close>. The middleware stores the whole \<open>userPermissions\<close>
  object in \<open>req.userRoomRole\<close>, so the comparison converts an object to a string: it is
  true, or throws when the object has an own property \<open>toString\<close> (which is then a role
  name, not a function).
\<close>

definition userRoomRole_is_not_owner :: "(string \<times> string) list \<Rightarrow> bool option" where
  "userRoomRole_is_not_owner role = (if ''toString'' \<in> set (map fst role) then None else Some True)"

text \<open>\<open>room.rolePermissions[role_name][key] = element\<close> on the room the handler fetched.\<close>

fun assign :: "role_object \<Rightarrow> string \<Rightarrow> bool \<Rightarrow> role_object" where
  "assign (Own_role p) key b = Own_role (AList.update key b p)"
| "assign other key b = other"

definition roles_update_error :: response where
  "roles_update_error =
     code_message 500 ''internal_error''
       ''An internal error occurred and we could not serve your request.''"

definition access_denied_permissions :: response where
  "access_denied_permissions =
     code_message 400 ''access_denied'' ''You cannot manage permissions you don't have.''"

definition pollution_detected :: response where
  "pollution_detected =
     code_message 400 ''invalid_input'' ''Possible prototype pollution attack detected.''"

definition not_boolean :: "string \<Rightarrow> response" where
  "not_boolean key =
     code_message 400 ''invalid_input''
       (''All values must be booleans. (permission `'' @ key @ ''`)'')"

fun update_loop ::
  "env \<Rightarrow> user \<Rightarrow> ctx \<Rightarrow> role_object \<Rightarrow> (string \<times> json) list \<Rightarrow> response + role_object" where
  "update_loop e u c target [] = Inr target"
| "update_loop e u c target ((key, element) # rest) =
     (case holds e (userRoomPermissions c) key of
        None \<Rightarrow> Inl roles_update_error
      | Some h \<Rightarrow>
          if \<not> h \<and> userRoomRole_is_not_owner (userRoomRole c) = None
          then Inl roles_update_error
          else if \<not> h \<and> userRoomRole_is_not_owner (userRoomRole c) = Some True \<and> \<not> developer u
          then Inl access_denied_permissions
          else if str_includes key ''__proto__'' then Inl pollution_detected
          else if typeof (Some element) \<noteq> T_boolean then Inl (not_boolean key)
          else update_loop e u c (assign target key (the_bool element)) rest)"

text \<open>The \<open>rolePermissions\<close> object of the fetched room after the loop's assignments.\<close>

fun store_role :: "string \<Rightarrow> role_object \<Rightarrow> (string \<times> permissions) list \<Rightarrow> (string \<times> permissions) list" where
  "store_role role_name (Own_role p) rp = AList.update role_name p rp"
| "store_role role_name other rp = rp"

definition roles_update ::
  "env \<Rightarrow> store \<Rightarrow> user \<Rightarrow> string \<Rightarrow> string \<Rightarrow> json \<Rightarrow> response \<times> store" where
  "roles_update e st u rid role_name body =
     (case requiresRoomPermission ''managePermissions'' e st u rid of
        Stop r \<Rightarrow> (r, st)
      | Next c \<Rightarrow>
          if str_includes role_name ''__proto__'' then (pollution_detected, st)
          else if body = JNull then (roles_update_error, st)
          else if role_name = ''owner''
          then (code_message 400 ''access_denied''
                  ''You cannot edit the permissions of the 'owner' role.'', st)
          else (case findOne st rid of
                  None \<Rightarrow> (roles_update_error, st)
                | Some room \<Rightarrow>
                    if lookup_role (rolePermissions room) role_name = Undefined_role
                    then (code_message 404 ''not_found'' ''No role with that name exists.'', st)
                    else (case update_loop e u c (lookup_role (rolePermissions room) role_name)
                                 (for_in (js_prop body ''permissions'')) of
                            Inl r \<Rightarrow> (r, st)
                          | Inr target \<Rightarrow>
                              audited e rid (uid u)
                                \<lparr>event_type = RolePermissionsUpdate,
                                 previous_value =
                                   role_object_value
                                     (lookup_role (rolePermissions (req_room c)) role_name),
                                 new_value = role_object_value target,
                                 event_note = A_null\<rparr>
                                (success ''The operation was successful.'') roles_update_error
                                (updateOne rid
                                   (\<lambda>r. r\<lparr>rolePermissions :=
                                             store_role role_name target (rolePermissions room)\<rparr>)
                                   st))))"

text \<open>\<open>POST /room/:id/roles/:role_name/delete\<close>\<close>

text \<open>
  The loop over \<open>Object.keys(room.userPermissions)\<close>: it compares each key, a user id,
  with the role name, and collects the keys that are equal to it.
\<close>

fun users_to_reset :: "string list \<Rightarrow> string \<Rightarrow> string list" where
  "users_to_reset [] role_name = []"
| "users_to_reset (key # keys) role_name =
     (let role = key in
      if role \<noteq> role_name then users_to_reset keys role_name
      else key # users_to_reset keys role_name)"

definition roles_delete_error :: response where
  "roles_delete_error =
     code_message 500 ''internal_error''
       ''An internal server error occurred and we couldn't serve your request.''"

definition roles_delete ::
  "env \<Rightarrow> store \<Rightarrow> user \<Rightarrow> string \<Rightarrow> string \<Rightarrow> response \<times> store" where
  "roles_delete e st u rid role_name =
     (case requiresRoomPermission ''managePermissions'' e st u rid of
        Stop r \<Rightarrow> (r, st)
      | Next c \<Rightarrow>
          if role_name \<in> set [''owner'', ''everyone'']
          then (code_message 400 ''invalid_input''
                  ''You cannot delete a reserved role. (i.e 'owner' or 'everyone')'', st)
          else (case findOne st rid of
                  None \<Rightarrow> (roles_delete_error, st)
                | Some room \<Rightarrow>
                    let users = users_to_reset (map fst (userPermissions room)) role_name in
                    audited e rid (uid u)
                      \<lparr>event_type = RoleDeleted,
                       previous_value = role_object_value (lookup_role (rolePermissions room) role_name),
                       new_value = A_null, event_note = A_null\<rparr>
                      (success ''The operation was successful.'') roles_delete_error
                      (updateOne rid
                         (\<lambda>r. r\<lparr>rolePermissions := AList.delete role_name (rolePermissions r),
                                 userPermissions :=
                                   fold (\<lambda>k up. AList.update k ''everyone'' up) users
                                     (userPermissions r)\<rparr>)
                         st)))"

text \<open>\<open>POST /room/:id/user/:user_id/set-role/:role_name\<close>\<close>

text \<open>\<open>room.userPermissions[user_id] ?? "everyone"\<close>, a read that can reach the prototype.\<close>

definition current_role_of :: "room \<Rightarrow> string \<Rightarrow> audit_value" where
  "current_role_of r target =
     (case map_of (userPermissions r) target of
        Some role \<Rightarrow> A_string role
      | None \<Rightarrow> if target \<in> set Object_prototype then A_builtin target else A_string ''everyone'')"

definition set_role_error :: response where
  "set_role_error =
     code_message 500 ''internal_error''
       ''An internal error occurred and we couldn't serve your request.''"

definition set_role ::
  "env \<Rightarrow> store \<Rightarrow> user \<Rightarrow> string \<Rightarrow> string \<Rightarrow> string \<Rightarrow> response \<times> store" where
  "set_role e st u rid target role_name =
     (case requiresRoomPermission ''managePermissions'' e st u rid of
        Stop r \<Rightarrow> (r, st)
      | Next c \<Rightarrow>
          if role_name = ''owner''
          then (code_message 403 ''access_denied''
                  ''The 'owner' role cannot be manually assigned. Contact support if you're trying to transfer a room.'', st)
          else if target = uid u
          then (code_message 403 ''access_denied'' ''You cannot set your own role.'', st)
          else (case findOne st rid of
                  None \<Rightarrow> (set_role_error, st)
                | Some room \<Rightarrow>
                    if target = creator_id room
                    then (code_message 403 ''access_denied''
                            ''You cannot set the role of the Room Creator.'', st)
                    else if current_role_of room target = A_string ''owner''
                    then (code_message 403 ''access_denied''
                            ''You cannot set the role of the Room Owner.'', st)
                    else audited e rid (uid u)
                           \<lparr>event_type = UserRoleUpdate,
                            previous_value = current_role_of room target,
                            new_value = A_string role_name, event_note = A_null\<rparr>
                           (success ''The operation was successful.'') set_role_error
                           (updateOne rid
                              (\<lambda>r. r\<lparr>userPermissions :=
                                        (if role_name = ''everyone''
                                         then AList.delete target (userPermissions r)
                                         else AList.update target role_name (userPermissions r))\<rparr>)
                              st)))"

subsection \<open>Room information and creation\<close>

text \<open>\<open>GET /room/:room_id/info\<close>, where the user is optional.\<close>

definition projection :: "room \<Rightarrow> room_visible" where
  "projection r =
     \<lparr>v_id = doc_id r, v_name = name r, v_description = description r,
      v_creator_id = creator_id r, v_tags = tags r, v_created_at = created_at r,
      v_visits = visits r, v_homeSubroomId = homeSubroomId r,
      v_cover_image_id = cover_image_id r, v_contentFlags = contentFlags r\<rparr>"

definition info :: "env \<Rightarrow> store \<Rightarrow> user option \<Rightarrow> string \<Rightarrow> response" where
  "info e st ou rid =
     (case findOne st rid of
        None \<Rightarrow> message_only 404 ''room_not_found''
      | Some r \<Rightarrow>
          (case ou of
             Some u \<Rightarrow>
               (case holds e (lookup_role (rolePermissions r) (role_of r (uid u))) ''viewAndJoin'' of
                  None \<Rightarrow> SendStatus 500
                | Some view \<Rightarrow>
                    if \<not> view \<and> uid u \<noteq> creator_id r
                    then message_only 403 ''invalid_permissions''
                    else Room_info 200 (projection r))
           | None \<Rightarrow>
               (case holds e (lookup_role (rolePermissions r) ''everyone'') ''viewAndJoin'' of
                  None \<Rightarrow> SendStatus 500
                | Some view \<Rightarrow>
                    if \<not> view then message_only 403 ''invalid_permissions''
                    else Room_info 200 (projection r))))"




text \<open>\<open>POST /new\<close>\<close>

definition initial_version :: "string \<Rightarrow> version" where
  "initial_version a =
     \<lparr>baseSceneIndex = 15,
      spawn = \<lparr>position = (0, 0, 0), rotation = (0, 0, 0, 0)\<rparr>,
      shortHandCommitMessage = ''Initial Commit'',
      longHandCommitMessage = ''Initial Commit - Auto-Generated for your convenience.'',
      author = a, collaborators = [], associated_file = False\<rparr>"

definition initial_subroom :: "string \<Rightarrow> subroom" where
  "initial_subroom a =
     \<lparr>publicVersionId = Id_number 0, maxPlayers = 20, versions = [initial_version a]\<rparr>"

definition seven_permissions :: "bool \<Rightarrow> permissions" where
  "seven_permissions b =
     [(''viewAndJoin'', b), (''createVersions'', b), (''setPublicVersion'', b),
      (''viewSettings'', b), (''viewPermissions'', b), (''managePermissions'', b),
      (''useCreationTool'', b)]"

definition new_room_document :: "env \<Rightarrow> user \<Rightarrow> string \<Rightarrow> room" where
  "new_room_document e u n =
     \<lparr>doc_id = uuid e, name = n, description = ''An empty room.'', creator_id = uid u,
      tags = [''community'', ''custom room''], created_at = now e, visits = 0,
      subrooms = [(''home'', initial_subroom (uid u))],
      homeSubroomId = ''home'',
      rolePermissions =
        [(''everyone'', seven_permissions False), (''owner'', seven_permissions True)],
      userPermissions = [(uid u, ''owner'')],
      cover_image_id = ''2'', contentFlags = [], reports = []\<rparr>"

definition new_room_error :: response where
  "new_room_error =
     code_message 500 ''internal_server_error''
       ''An internal server error occurred and we were unable to process your request.''"

text \<open>\<open>insertOne\<close> throws on a duplicate \<open>_id\<close>.\<close>

definition insertOne :: "room \<Rightarrow> store \<Rightarrow> store option" where
  "insertOne r st =
     (if doc_id r \<in> set (map fst (rooms st)) then None
      else Some (st\<lparr>rooms := rooms st @ [(doc_id r, r)]\<rparr>))"

definition new_room :: "env \<Rightarrow> store \<Rightarrow> user \<Rightarrow> json \<Rightarrow> response \<times> store" where
  "new_room e st u body =
     (if body = JNull then (new_room_error, st)
      else let n = js_prop body ''name'' in
      if typeof n \<noteq> T_string
      then (code_message 400 ''unspecified_parameter''
              ''You did not specify the parameter 'name' in your request body.'', st)
      else if list_ex (\<lambda>r. creator_id r = uid u \<and> name r = the_string n) (map snd (rooms st))
      then (code_message 400 ''room_already_exists''
              ''You have already created a room with that name.'', st)
      else (case insertOne (new_room_document e u (the_string n)) st of
              None \<Rightarrow> (new_room_error, st)
            | Some st' \<Rightarrow>
                audited e (uuid e) (uid u)
                  \<lparr>event_type = RoomCreate, previous_value = A_undefined,
                   new_value = A_string (the_string n), event_note = A_undefined\<rparr>
                  (success ''The operation was successful.'') new_room_error st'))"

subsection \<open>Versions\<close>

text \<open>\<open>PUT /room/:id/subrooms/:subroom_id/versions/new\<close>\<close>

definition valid_spawn :: "json \<Rightarrow> bool" where
  "valid_spawn input_metadata =
     (let sp = js_prop input_metadata ''spawn'' in
      typeof sp = T_object \<and>
      typeof (opt_prop sp ''position'') = T_object \<and>
      typeof (opt_prop sp ''rotation'') = T_object \<and>
      typeof (opt_prop (opt_prop sp ''position'') ''x'') = T_number \<and>
      typeof (opt_prop (opt_prop sp ''position'') ''y'') = T_number \<and>
      typeof (opt_prop (opt_prop sp ''position'') ''z'') = T_number \<and>
      typeof (opt_prop (opt_prop sp ''rotation'') ''x'') = T_number \<and>
      typeof (opt_prop (opt_prop sp ''rotation'') ''y'') = T_number \<and>
      typeof (opt_prop (opt_prop sp ''rotation'') ''z'') = T_number \<and>
      typeof (opt_prop (opt_prop sp ''rotation'') ''w'') = T_number)"

fun the_number :: "json option \<Rightarrow> real" where
  "the_number (Some (JNum n)) = n"
| "the_number _ = 0"

text \<open>
  The metadata the handler stores: the defaults, overwritten by the scene index and the
  commit messages of the request when they have the right type, and by the caller's id.
  The spawn and the collaborators of the request are validated and not copied.
\<close>

definition decoupled_metadata :: "user \<Rightarrow> json \<Rightarrow> version" where
  "decoupled_metadata u input_metadata =
     \<lparr>baseSceneIndex =
        (if typeof (js_prop input_metadata ''baseSceneIndex'') = T_number
         then the_number (js_prop input_metadata ''baseSceneIndex'') else 9),
      spawn = \<lparr>position = (0, 0, 0), rotation = (0, 0, 0, 1)\<rparr>,
      shortHandCommitMessage =
        (if typeof (js_prop input_metadata ''shortHandCommitMessage'') = T_string
         then the_string (js_prop input_metadata ''shortHandCommitMessage'') else ''No Message''),
      longHandCommitMessage =
        (if typeof (js_prop input_metadata ''longHandCommitMessage'') = T_string
         then the_string (js_prop input_metadata ''longHandCommitMessage'')
         else ''No Description''),
      author = uid u, collaborators = [], associated_file = False\<rparr>"

definition versions_new_error :: response where
  "versions_new_error =
     code_message 500 ''internal_error''
       ''An internal server error occured, and the operation failed. Please contact Support if the issue persists.''"

definition versions_of :: "room \<Rightarrow> string \<Rightarrow> version list" where
  "versions_of r sid = (case map_of (subrooms r) sid of None \<Rightarrow> [] | Some s \<Rightarrow> versions s)"

text \<open>An update of one subroom of a room, for the paths \<open>subrooms.<id>.<field>\<close>.\<close>

definition update_subroom :: "string \<Rightarrow> (subroom \<Rightarrow> subroom) \<Rightarrow> room \<Rightarrow> room" where
  "update_subroom sid f r =
     (case map_of (subrooms r) sid of
        None \<Rightarrow> r
      | Some s \<Rightarrow> r\<lparr>subrooms := AList.update sid (f s) (subrooms r)\<rparr>)"

definition versions_new ::
  "env \<Rightarrow> store \<Rightarrow> user \<Rightarrow> string \<Rightarrow> string \<Rightarrow> json \<Rightarrow> response \<times> store" where
  "versions_new e st u rid subroom_id input_metadata =
     (case requiresRoomPermission ''createVersions'' e st u rid of
        Stop r \<Rightarrow> (r, st)
      | Next c \<Rightarrow>
          if input_metadata = JNull then (versions_new_error, st)
          else if \<not> valid_spawn input_metadata
          then (code_message 400 ''invalid_metadata''
                  ''The `spawn` parameter of your version metadata is not specified or is invalid.'', st)
          else if \<not> isArray (js_prop input_metadata ''collaborators'')
          then (code_message 400 ''invalid_metadata''
                  ''The `collaborators` parameter of your version metadata is not specified or is invalid.'', st)
          else (case findOne st rid of
                  None \<Rightarrow> (versions_new_error, st)
                | Some room \<Rightarrow>
                    if subroom_id \<notin> set (map fst (subrooms room))
                    then (code_message 404 ''nonexistent_subroom''
                            ''No subroom found with specified ID.'', st)
                    else audited e rid (uid u)
                           \<lparr>event_type = ChangesetCreation, previous_value = A_undefined,
                            new_value = A_undefined, event_note = A_undefined\<rparr>
                           (Json 200
                              [(''code'', JStr ''success''),
                               (''message'', JStr ''Operation succeeded.''),
                               (''id'', JStr (nat_toString (length (versions_of room subroom_id))))])
                           versions_new_error
                           (updateOne rid
                              (update_subroom subroom_id
                                 (\<lambda>s. s\<lparr>versions :=
                                           versions s @ [decoupled_metadata u input_metadata]\<rparr>))
                              st)))"



text \<open>\<open>POST /room/:id/subrooms/:subroom_id/versions/:version_id/associate-data\<close>\<close>

definition associate_data_error :: response where
  "associate_data_error =
     code_message 500 ''internal_error''
       ''An internal server error occured and the operation failed. If the issue persists, contact Support.''"

text \<open>\<open>Buffer.from(base_64_data, 'base64')\<close>; \<open>None\<close> when it throws.\<close>

definition Buffer_from_base64 :: "env \<Rightarrow> json \<Rightarrow> buffer option" where
  "Buffer_from_base64 e base_64_data =
     (case base_64_data of
        JStr s \<Rightarrow> Some (Buffer_from base_64_data)
      | _ \<Rightarrow> if buffer_from_throws e base_64_data then None else Some (Buffer_from base_64_data))"

definition version_file :: "string \<Rightarrow> string \<Rightarrow> int \<Rightarrow> string" where
  "version_file rid subroom_id version_id =
     ''rooms/'' @ rid @ ''/subrooms/'' @ subroom_id @ ''/versions/'' @ int_toString version_id @ ''.bin''"

definition already_associated :: response where
  "already_associated =
     code_message 400 ''file_already_associated''
       ''There is already a file associated with this version. Try making a new one.''"

definition associate_data ::
  "env \<Rightarrow> store \<Rightarrow> user \<Rightarrow> string \<Rightarrow> string \<Rightarrow> string \<Rightarrow> json \<Rightarrow> response \<times> store" where
  "associate_data e st u rid subroom_id version_param base_64_data =
     (case requiresRoomPermission ''createVersions'' e st u rid of
        Stop r \<Rightarrow> (r, st)
      | Next c \<Rightarrow>
          (case parseInt version_param of
             None \<Rightarrow>
               (code_message 400 ''invalid_parameter''
                  ''Parameter `version` is invalid, must be parsable as Integer.'', st)
           | Some version_id \<Rightarrow>
               (case findOne st rid of
                  None \<Rightarrow> (associate_data_error, st)
                | Some room \<Rightarrow>
                    if subroom_id \<notin> set (map fst (subrooms room))
                    then (code_message 403 ''nonexistent_subroom'' ''That subroom does not exist.'', st)
                    else if int (length (versions_of room subroom_id)) - 1 < version_id
                    then (code_message 404 ''version_not_found''
                            ''No version of this room exists with that ID.'', st)
                    else if version_id < 0 then (associate_data_error, st)
                    else if associated_file (versions_of room subroom_id ! nat version_id)
                    then (already_associated, st)
                    else (case Buffer_from_base64 e base_64_data of
                            None \<Rightarrow>
                              (code_message 400 ''binary_data_invalid''
                                 ''Your byte array could not be parsed into a valid ArrayBuffer.'', st)
                          | Some buffer \<Rightarrow>
                              (success ''Operation successful.'',
                               updateOne rid
                                 (update_subroom subroom_id
                                    (\<lambda>s. s\<lparr>versions :=
                                              (versions s)[nat version_id :=
                                                 (versions s ! nat version_id)
                                                   \<lparr>associated_file := True\<rparr>]\<rparr>))
                                 (st\<lparr>files :=
                                       AList.update (version_file rid subroom_id version_id) buffer
                                         (files st)\<rparr>))))))"

text \<open>\<open>POST /room/:id/subrooms/:subroom_id/versions/public\<close>\<close>

definition set_public_version_error :: response where
  "set_public_version_error =
     code_message 500 ''internal_error''
       ''An internal error occured while processing your request. If the issue persists, please contact the server admin.''"

text \<open>\<open>length <= parseInt(id)\<close>: a comparison with \<open>NaN\<close> is false.\<close>

definition length_le_parsed :: "nat \<Rightarrow> int option \<Rightarrow> bool" where
  "length_le_parsed n parsed = (case parsed of None \<Rightarrow> False | Some i \<Rightarrow> int n \<le> i)"

definition set_public_version ::
  "env \<Rightarrow> store \<Rightarrow> user \<Rightarrow> string \<Rightarrow> string \<Rightarrow> json \<Rightarrow> response \<times> store" where
  "set_public_version e st u rid subroom_id body =
     (case requiresRoomPermission ''setPublicVersion'' e st u rid of
        Stop r \<Rightarrow> (r, st)
      | Next c \<Rightarrow>
          if body = JNull then (set_public_version_error, st)
          else let version_id = js_prop body ''id'' in
          if typeof version_id \<noteq> T_string
          then (code_message 400 ''invalid_input''
                  ''Parameter `new_id` is unset. Please specify a new publicVersionId.'', st)
          else (case findOne st rid of
                  None \<Rightarrow> (code_message 404 ''room_not_found'' ''That room does not exist.'', st)
                | Some room \<Rightarrow>
                    if subroom_id \<notin> set (map fst (subrooms room))
                    then (code_message 404 ''nonexistent_subroom'' ''That subroom does not exist.'', st)
                    else if length_le_parsed (length (versions_of room subroom_id))
                              (parseInt (the_string version_id))
                    then (code_message 400 ''nonexistent_version''
                            ''There is no version of this room associated with that ID.'', st)
                    else audited e rid (uid u)
                           \<lparr>event_type = PublicVersionUpdate,
                            previous_value =
                              (case map_of (subrooms room) subroom_id of
                                 None \<Rightarrow> A_undefined
                               | Some s \<Rightarrow> A_version_id (publicVersionId s)),
                            new_value = A_string (the_string version_id),
                            event_note = A_undefined\<rparr>
                           (success ''Operation successful'') set_public_version_error
                           (updateOne rid
                              (update_subroom subroom_id
                                 (\<lambda>s. s\<lparr>publicVersionId := Id_string (the_string version_id)\<rparr>))
                              st)))"

text \<open>
  \<open>subroom.versions[version_id]\<close>, as the download route reads the version a
  \<open>publicVersionId\<close> selects: an array has an element under a number that is an index, and
  under a string that is the decimal numeral of an index.
\<close>

fun version_at :: "version list \<Rightarrow> version_id \<Rightarrow> version option" where
  "version_at vs (Id_number i) = (if 0 \<le> i \<and> i < int (length vs) then Some (vs ! nat i) else None)"
| "version_at vs (Id_string s) =
     map_option (\<lambda>i. vs ! i) (find (\<lambda>i. nat_toString i = s) [0..<length vs])"

subsection \<open>Descriptive metadata\<close>

definition generic_error :: response where
  "generic_error =
     code_message 500 ''internal_error''
       ''An internal error occurred and we could not process your request.''"

text \<open>\<open>POST /room/:id/tags\<close>\<close>

fun the_array :: "json option \<Rightarrow> json list" where
  "the_array (Some (JArr xs)) = xs"
| "the_array _ = []"

definition not_a_string_array :: response where
  "not_a_string_array =
     code_message 400 ''invalid_input''
       ''Cannot set tags of room to anything other than a string[].''"

definition set_tags :: "env \<Rightarrow> store \<Rightarrow> user \<Rightarrow> string \<Rightarrow> json \<Rightarrow> response \<times> store" where
  "set_tags e st u rid body =
     (case requiresRoomPermission ''manageTags'' e st u rid of
        Stop r \<Rightarrow> (r, st)
      | Next c \<Rightarrow>
          if body = JNull then (generic_error, st)
          else let ts = js_prop body ''tags'' in
          if typeof ts \<noteq> T_object \<or> \<not> isArray ts then (not_a_string_array, st)
          else if list_ex (\<lambda>t. typeof (Some t) \<noteq> T_string) (the_array ts)
          then (not_a_string_array, st)
          else (success ''The operation was successful.'',
                updateOne rid (\<lambda>r. r\<lparr>tags := map (\<lambda>t. the_string (Some t)) (the_array ts)\<rparr>) st))"

text \<open>\<open>POST /room/:id/content_flags\<close>: the audit record is written before the room.\<close>

fun the_object :: "json option \<Rightarrow> (string \<times> json) list" where
  "the_object (Some (JObj kvs)) = kvs"
| "the_object _ = []"

definition not_a_dictionary :: response where
  "not_a_dictionary =
     code_message 400 ''invalid_input''
       ''Cannot set flags of room to anything other than a Dictionary<string, string>.''"

definition set_content_flags :: "env \<Rightarrow> store \<Rightarrow> user \<Rightarrow> string \<Rightarrow> json \<Rightarrow> response \<times> store" where
  "set_content_flags e st u rid body =
     (case requiresRoomPermission ''manageContentFlags'' e st u rid of
        Stop r \<Rightarrow> (r, st)
      | Next c \<Rightarrow>
          if body = JNull then (generic_error, st)
          else let flags = js_prop body ''flags'' in
          if typeof flags \<noteq> T_object \<or> isArray flags then (not_a_dictionary, st)
          else if flags = Some JNull then (generic_error, st)
          else if list_ex (\<lambda>(k, v). typeof (Some v) \<noteq> T_string) (the_object flags)
          then (not_a_dictionary, st)
          else (case roomAuditLog e rid (uid u)
                       \<lparr>event_type = ContentFlagsUpdate, previous_value = A_undefined,
                        new_value = A_json (JObj (the_object flags)), event_note = A_undefined\<rparr> st of
                  None \<Rightarrow> (generic_error, st)
                | Some st' \<Rightarrow>
                    (success ''The operation was successful.'',
                     updateOne rid
                       (\<lambda>r. r\<lparr>contentFlags :=
                                 map (\<lambda>(k, v). (k, the_string (Some v))) (the_object flags)\<rparr>)
                       st')))"

text \<open>\<open>POST /room/:id/description\<close>\<close>

definition set_description :: "env \<Rightarrow> store \<Rightarrow> user \<Rightarrow> string \<Rightarrow> json \<Rightarrow> response \<times> store" where
  "set_description e st u rid body =
     (case requiresRoomPermission ''editDescription'' e st u rid of
        Stop r \<Rightarrow> (r, st)
      | Next c \<Rightarrow>
          if body = JNull then (generic_error, st)
          else let d = js_prop body ''description'' in
          if typeof d \<noteq> T_string
          then (code_message 400 ''invalid_input''
                  ''Cannot set description of room to anything other than a string.'', st)
          else audited e rid (uid u)
                 \<lparr>event_type = DescriptionUpdate, previous_value = A_undefined,
                  new_value = A_string (the_string d), event_note = A_undefined\<rparr>
                 (success ''The operation was successful.'') generic_error
                 (updateOne rid (\<lambda>r. r\<lparr>description := the_string d\<rparr>) st))"

text \<open>\<open>POST /room/:id/cover-image/set/:image_id\<close>\<close>

definition set_cover_image ::
  "env \<Rightarrow> store \<Rightarrow> user \<Rightarrow> string \<Rightarrow> string \<Rightarrow> response \<times> store" where
  "set_cover_image e st u rid image_id =
     (case requiresRoomPermission ''setRoomPhoto'' e st u rid of
        Stop r \<Rightarrow> (r, st)
      | Next c \<Rightarrow>
          (case (case parseInt image_id of None \<Rightarrow> None | Some i \<Rightarrow> map_of (images st) i) of
             None \<Rightarrow> (code_message 404 ''not_found'' ''No image exists with that ID!'', st)
           | Some takenInRoomId \<Rightarrow>
               if takenInRoomId \<noteq> rid
               then (code_message 400 ''invalid_input'' ''That image was not taken in this room!'', st)
               else (success ''Successfully set room image!'',
                     updateOne rid (\<lambda>r. r\<lparr>cover_image_id := image_id\<rparr>) st)))"

subsection \<open>Moderation\<close>

text \<open>
  The handlers below run after \<open>authenticateDeveloperToken\<close>, a middleware of another
  module, has let the request through.
\<close>

definition noparse_close :: string where
  "noparse_close = ''</noparse>''"

definition noparse_escaped :: string where
  "noparse_escaped = ''<'' @ [CHR 0x5C, CHR 0x5C] @ ''noparse>''"

text \<open>
  The loop \<open>while (roomname.indexOf("</noparse>") >= 0) roomname = roomname.replace(...)\<close>.
  Each round removes one slash, which is why it ends.
\<close>

function sanitize :: "string \<Rightarrow> string" where
  "sanitize roomname =
     (case indexOf roomname noparse_close of
        None \<Rightarrow> roomname
      | Some i \<Rightarrow>
          sanitize (take i roomname @ noparse_escaped @ drop (i + length noparse_close) roomname))"
  by pat_completeness auto
termination
proof (relation "measure (\<lambda>s. length (filter (\<lambda>c. c = CHR ''/'') s))")
  show "wf (measure (\<lambda>s. length (filter (\<lambda>c. c = CHR ''/'') s)))"
    by simp
next
  fix roomname :: string and i :: nat
  assume found: "indexOf roomname noparse_close = Some i"
  have split: "indexOf s p = Some j \<Longrightarrow> s = take j s @ p @ drop (j + length p) s"
    for s p :: string and j
  proof (induction s arbitrary: j)
    case Nil
    then show ?case by (simp split: if_splits)
  next
    case (Cons c cs)
    show ?case
    proof (cases "take (length p) (c # cs) = p")
      case True
      with Cons.prems have "j = 0" by simp
      moreover from True have "c # cs = p @ drop (length p) (c # cs)"
        by (metis append_take_drop_id)
      ultimately show ?thesis by simp
    next
      case False
      with Cons.prems obtain k where k: "indexOf cs p = Some k" "j = Suc k"
        by auto
      from Cons.IH [OF k(1)] k(2) show ?thesis by simp
    qed
  qed
  let ?count = "\<lambda>s. length (filter (\<lambda>c. c = CHR ''/'') s)"
  from split [OF found]
  have "?count roomname =
        ?count (take i roomname) + ?count noparse_close
          + ?count (drop (i + length noparse_close) roomname)"
    by (metis filter_append length_append add.assoc)
  moreover have "?count noparse_close = 1" "?count noparse_escaped = 0"
    by (simp_all add: noparse_close_def noparse_escaped_def)
  ultimately
  show "(take i roomname @ noparse_escaped @ drop (i + length noparse_close) roomname, roomname)
          \<in> measure ?count"
    by simp
qed

declare sanitize.simps [simp del]

text \<open>\<open>$push\<close> of a notification to an account; no account, no change.\<close>

definition push_notification :: "string \<Rightarrow> notification \<Rightarrow> store \<Rightarrow> store" where
  "push_notification account n st =
     (case map_of (accounts st) account of
        None \<Rightarrow> st
      | Some ns \<Rightarrow> st\<lparr>accounts := AList.update account (ns @ [n]) (accounts st)\<rparr>)"

definition moderation_notice :: "string \<Rightarrow> string \<Rightarrow> string \<Rightarrow> notification" where
  "moderation_notice tmpl roomname verdict =
     \<lparr>template = tmpl,
      headerText = ''<smallcaps><color=red>Urgent Moderation Notice'',
      bodyText =
        ''We regret to inform you that your room <noparse>'' @ [CHR 0x22] @ roomname @ [CHR 0x22]
        @ ''</noparse> has been '' @ verdict @ '' by the Compensation server moderation team.''\<rparr>"

text \<open>\<open>$set\<close> of \<open>rolePermissions.<role>.<key>\<close>.\<close>

definition set_permission ::
  "string \<Rightarrow> string \<Rightarrow> bool \<Rightarrow> (string \<times> permissions) list \<Rightarrow> (string \<times> permissions) list" where
  "set_permission role k b rp =
     AList.update role (AList.update k b (case map_of rp role of None \<Rightarrow> [] | Some p \<Rightarrow> p)) rp"

fun note_value :: "json option \<Rightarrow> audit_value" where
  "note_value None = A_undefined"
| "note_value (Some v) = A_json v"

definition moderation_error :: response where
  "moderation_error =
     code_message 500 ''internal_error''
       ''An internal error occurred and we could not suspend that room.''"

definition invalid_note :: response where
  "invalid_note =
     code_message 400 ''invalid_input'' ''Note must be either unspecified or a string.''"

definition room_not_located :: response where
  "room_not_located =
     code_message 404 ''room_not_found''
       ''Could not locate that room. Has another developer already terminated it?''"

text \<open>\<open>POST /room/:id/moderation-suspend\<close>\<close>

definition moderation_suspend :: "env \<Rightarrow> store \<Rightarrow> user \<Rightarrow> string \<Rightarrow> json \<Rightarrow> response \<times> store" where
  "moderation_suspend e st u rid body =
     (if body = JNull then (moderation_error, st)
      else let n = js_prop body ''note'' in
      if truthy n \<and> typeof n \<noteq> T_string then (invalid_note, st)
      else (case findOne st rid of
              None \<Rightarrow> (room_not_located, st)
            | Some room \<Rightarrow>
                (success ''The operation was successful.'',
                 push_notification (creator_id room)
                   (moderation_notice ''room_suspension_notice'' (sanitize (name room))
                      ''<color=yellow>suspended</color>'')
                   (roomAuditLog_detached e rid (uid u)
                      \<lparr>event_type = RoomSuspendedByDeveloper, previous_value = A_null,
                       new_value = A_null, event_note = note_value n\<rparr>
                      (updateOne rid
                         (\<lambda>r. r\<lparr>userPermissions := [],
                                 rolePermissions :=
                                   set_permission ''everyone'' ''managePermissions'' False
                                     (set_permission ''everyone'' ''viewAndJoin'' False
                                        (rolePermissions r)),
                                 description :=
                                   ''This room has been suspended by the Compensation server moderation team for possible violations of our community standards.''\<rparr>)
                         st)))))"

text \<open>
  \<open>POST /room/:id/moderation-terminate\<close>. The query parameter \<open>permanent\<close> is a string, an
  array or an object, as the query parser builds it; \<open>permanent == "true"\<close> compares its
  string conversion.
\<close>

datatype query_value =
    Q_string string
  | Q_array "query_value list"
  | Q_object "(string \<times> query_value) list"

fun join_commas :: "string list \<Rightarrow> string" where
  "join_commas [] = []"
| "join_commas [x] = x"
| "join_commas (x # y # ys) = x @ '','' @ join_commas (y # ys)"

fun query_toString :: "query_value \<Rightarrow> string" where
  "query_toString (Q_string s) = s"
| "query_toString (Q_array xs) = join_commas (map query_toString xs)"
| "query_toString (Q_object kvs) = ''[object Object]''"

definition equals_true :: "query_value option \<Rightarrow> bool" where
  "equals_true permanent =
     (case permanent of None \<Rightarrow> False | Some q \<Rightarrow> query_toString q = ''true'')"

definition moderation_terminate ::
  "env \<Rightarrow> store \<Rightarrow> user \<Rightarrow> string \<Rightarrow> json \<Rightarrow> query_value option \<Rightarrow> response \<times> store" where
  "moderation_terminate e st u rid body permanent =
     (if body = JNull then (moderation_error, st)
      else let n = js_prop body ''note'' in
      if truthy n \<and> typeof n \<noteq> T_string then (invalid_note, st)
      else (case findOne st rid of
              None \<Rightarrow> (room_not_located, st)
            | Some room \<Rightarrow>
                if equals_true permanent
                then (success ''Room wiped entirely from database.'',
                      roomAuditLog_detached e rid (uid u)
                        \<lparr>event_type = RoomTerminatedByDeveloperForIllegalContent,
                         previous_value = A_null, new_value = A_null, event_note = note_value n\<rparr>
                        (deleteOne rid st))
                else (success ''The operation was successful.'',
                      push_notification (creator_id room)
                        (moderation_notice ''room_termination_notice'' (sanitize (name room))
                           ''<color=#FF5566>Terminated</color>'')
                        (roomAuditLog_detached e rid (uid u)
                           \<lparr>event_type = RoomTerminatedByDeveloper, previous_value = A_null,
                            new_value = A_null, event_note = note_value n\<rparr>
                           (updateOne rid
                              (\<lambda>r. r\<lparr>userPermissions := [],
                                      rolePermissions := [(''everyone'', [])],
                                      description :=
                                        ''This room has been terminated by the Compensation server moderation team for repeated violations of our community standards.''\<rparr>)
                              st)))))"

text \<open>\<open>POST /room/:id/report\<close>, after the rate limiter and the authentication.\<close>

definition report_error :: response where
  "report_error =
     code_message 500 ''internal_error''
       ''An internal error occurred and we could not perform that operation.''"

definition report_room :: "env \<Rightarrow> store \<Rightarrow> user \<Rightarrow> string \<Rightarrow> json \<Rightarrow> response \<times> store" where
  "report_room e st u rid body =
     (if body = JNull then (report_error, st)
      else if typeof (js_prop body ''reason'') \<noteq> T_string
              \<or> typeof (js_prop body ''illegal_content'') \<noteq> T_boolean
              \<or> typeof (js_prop body ''danger_of_harm'') \<noteq> T_boolean
      then (code_message 400 ''invalid_input''
              ''One or more parameters of your request are invalid.'', st)
      else let st' =
             updateOne rid
               (\<lambda>r. r\<lparr>reports := reports r @
                         [\<lparr>reason = the_string (js_prop body ''reason''),
                           alleges_illegal_content =
                             (js_prop body ''illegal_content'' = Some (JBool True)),
                           alleges_danger_of_harm =
                             (js_prop body ''danger_of_harm'' = Some (JBool True)),
                           reporting_user_id = uid u, time = now e\<rparr>]\<rparr>) st
           in (case findOne st' rid of
                 None \<Rightarrow> (report_error, st')
               | Some data \<Rightarrow> (success ''Successfully reported room.'', st')))"

subsection \<open>Subrooms\<close>

definition subroom_error :: response where
  "subroom_error =
     code_message 500 ''internal_error''
       ''An internal error occurred and we couldn't serve your request.''"

text \<open>\<open>POST /room/:id/subrooms/:name/create\<close>\<close>

definition subroom_create ::
  "env \<Rightarrow> store \<Rightarrow> user \<Rightarrow> string \<Rightarrow> string \<Rightarrow> json \<Rightarrow> response \<times> store" where
  "subroom_create e st u rid subroom_name body =
     (case requiresRoomPermission ''manageSubrooms'' e st u rid of
        Stop r \<Rightarrow> (r, st)
      | Next c \<Rightarrow>
          if body = JNull then (subroom_error, st)
          else let n = js_prop body ''note'' in
          if typeof n \<noteq> T_undefined \<and> typeof n \<noteq> T_string
          then (code_message 400 ''invalid_input''
                  ''Invalid note. Note must be either a String or undefined.'', st)
          else if subroom_name \<in> set (map fst (subrooms (req_room c)))
          then (code_message 400 ''invalid_input'' ''A subroom with that name already exists.'', st)
          else audited e rid (uid u)
                 \<lparr>event_type = SubroomCreate, previous_value = A_null, new_value = A_null,
                  event_note = (if truthy n then A_string (the_string n) else A_null)\<rparr>
                 (success ''The operation was successful.'') subroom_error
                 (updateOne rid
                    (\<lambda>r. r\<lparr>subrooms :=
                              AList.update subroom_name (initial_subroom (uid u)) (subrooms r)\<rparr>)
                    st))"

text \<open>\<open>POST /room/:id/subrooms/:name/delete\<close>\<close>

definition subroom_delete ::
  "env \<Rightarrow> store \<Rightarrow> user \<Rightarrow> string \<Rightarrow> string \<Rightarrow> response \<times> store" where
  "subroom_delete e st u rid subroom_name =
     (case requiresRoomPermission ''deleteSubrooms'' e st u rid of
        Stop r \<Rightarrow> (r, st)
      | Next c \<Rightarrow>
          if subroom_name \<notin> set (map fst (subrooms (req_room c)))
          then (code_message 404 ''not_found'' ''No role with that name exists on this room.'', st)
          else if subroom_name = homeSubroomId (req_room c)
          then (code_message 400 ''invalid_input''
                  ''You cannot delete the home subroom of a room.'', st)
          else audited e rid (uid u)
                 \<lparr>event_type = SubroomDelete,
                  previous_value =
                    (case map_of (subrooms (req_room c)) subroom_name of
                       None \<Rightarrow> A_undefined
                     | Some s \<Rightarrow> A_subroom s),
                  new_value = A_null, event_note = A_null\<rparr>
                 (success ''The operation was successful.'') subroom_error
                 (updateOne rid
                    (\<lambda>r. r\<lparr>subrooms := AList.delete subroom_name (subrooms r)\<rparr>) st))"

text \<open>\<open>POST /room/:id/subrooms/:name/set-max-players/:count\<close>\<close>

definition set_max_players ::
  "env \<Rightarrow> store \<Rightarrow> user \<Rightarrow> string \<Rightarrow> string \<Rightarrow> string \<Rightarrow> response \<times> store" where
  "set_max_players e st u rid subroom_name count =
     (case requiresRoomPermission ''manageSubrooms'' e st u rid of
        Stop r \<Rightarrow> (r, st)
      | Next c \<Rightarrow>
          if subroom_name \<notin> set (map fst (subrooms (req_room c)))
          then (code_message 404 ''not_found''
                  ''No subroom with that name exists on this room.'', st)
          else (case parseInt count of
                  None \<Rightarrow>
                    (code_message 400 ''invalid_input''
                       ''Could not parse URL parameter `count` as integer.'', st)
                | Some n \<Rightarrow>
                    audited e rid (uid u)
                      \<lparr>event_type = SubroomMaxPlayerUpdate,
                       previous_value =
                         (case map_of (subrooms (req_room c)) subroom_name of
                            None \<Rightarrow> A_undefined
                          | Some s \<Rightarrow> A_number (maxPlayers s)),
                       new_value = A_number n, event_note = A_null\<rparr>
                      (success ''The operation was successful.'')
                      (code_message 500 ''internal_error''
                         ''An internal error occurred and we couldn't process your request.'')
                      (updateOne rid (update_subroom subroom_name (\<lambda>s. s\<lparr>maxPlayers := n\<rparr>)) st)))"

text \<open>\<open>POST /room/:id/set-home-subroom/:name\<close>\<close>

definition set_home_subroom ::
  "env \<Rightarrow> store \<Rightarrow> user \<Rightarrow> string \<Rightarrow> string \<Rightarrow> response \<times> store" where
  "set_home_subroom e st u rid subroom_name =
     (case requiresRoomPermission ''setHomeSubroom'' e st u rid of
        Stop r \<Rightarrow> (r, st)
      | Next c \<Rightarrow>
          if subroom_name \<notin> set (map fst (subrooms (req_room c)))
          then (code_message 404 ''not_found''
                  ''No subroom with that name exists on this room.'', st)
          else audited e rid (uid u)
                 \<lparr>event_type = HomeSubroomSet,
                  previous_value = A_string (homeSubroomId (req_room c)),
                  new_value = A_string subroom_name, event_note = A_null\<rparr>
                 (success ''The operation was successful.'')
                 (code_message 500 ''internal_error''
                    ''An internal server error occurred and we couldn't serve your request.'')
                 (updateOne rid (\<lambda>r. r\<lparr>homeSubroomId := subroom_name\<rparr>) st))"

subsection \<open>The router as a transition system\<close>

text \<open>Every request that can change the store, with the user the authentication found.\<close>

datatype request =
    New_room user json
  | Versions_new user string string json
  | Associate_data user string string string json
  | Set_public_version user string string json
  | Set_tags user string json
  | Set_content_flags user string json
  | Moderation_suspend user string json
  | Moderation_terminate user string json "query_value option"
  | Set_description user string json
  | Report_room user string json
  | Roles_new user string json
  | Roles_update user string string json
  | Roles_delete user string string
  | Set_role user string string string
  | Set_cover_image user string string
  | Subroom_create user string string json
  | Subroom_delete user string string
  | Set_max_players user string string string
  | Set_home_subroom user string string

fun handle :: "env \<Rightarrow> store \<Rightarrow> request \<Rightarrow> response \<times> store" where
  "handle e st (New_room u body) = new_room e st u body"
| "handle e st (Versions_new u rid sid body) = versions_new e st u rid sid body"
| "handle e st (Associate_data u rid sid vid body) = associate_data e st u rid sid vid body"
| "handle e st (Set_public_version u rid sid body) = set_public_version e st u rid sid body"
| "handle e st (Set_tags u rid body) = set_tags e st u rid body"
| "handle e st (Set_content_flags u rid body) = set_content_flags e st u rid body"
| "handle e st (Moderation_suspend u rid body) = moderation_suspend e st u rid body"
| "handle e st (Moderation_terminate u rid body permanent) =
     moderation_terminate e st u rid body permanent"
| "handle e st (Set_description u rid body) = set_description e st u rid body"
| "handle e st (Report_room u rid body) = report_room e st u rid body"
| "handle e st (Roles_new u rid body) = roles_new e st u rid body"
| "handle e st (Roles_update u rid role_name body) = roles_update e st u rid role_name body"
| "handle e st (Roles_delete u rid role_name) = roles_delete e st u rid role_name"
| "handle e st (Set_role u rid target role_name) = set_role e st u rid target role_name"
| "handle e st (Set_cover_image u rid image_id) = set_cover_image e st u rid image_id"
| "handle e st (Subroom_create u rid n body) = subroom_create e st u rid n body"
| "handle e st (Subroom_delete u rid n) = subroom_delete e st u rid n"
| "handle e st (Set_max_players u rid n count) = set_max_players e st u rid n count"
| "handle e st (Set_home_subroom u rid n) = set_home_subroom e st u rid n"

text \<open>A sequence of requests, each with the environment it meets.\<close>

fun run :: "store \<Rightarrow> (env \<times> request) list \<Rightarrow> store" where
  "run st [] = st"
| "run st ((e, rq) # rest) = run (snd (handle e st rq)) rest"

text \<open>A request creates the room with a given id when it is a room creation that draws this id.\<close>

fun creates :: "string \<Rightarrow> env \<Rightarrow> request \<Rightarrow> bool" where
  "creates rid e (New_room u body) = (uuid e = rid)"
| "creates rid e rq = False"

text \<open>
  How a request treats its audit record: it awaits \<open>roomAuditLog\<close> inside its \<open>try\<close> block,
  it calls \<open>roomAuditLog\<close> without awaiting it, or it writes no audit record.
\<close>

datatype audit_call = Awaited | Detached | Unaudited

fun audit_call_of :: "request \<Rightarrow> audit_call" where
  "audit_call_of (Moderation_suspend u rid body) = Detached"
| "audit_call_of (Moderation_terminate u rid body permanent) = Detached"
| "audit_call_of (Associate_data u rid sid vid body) = Unaudited"
| "audit_call_of (Set_tags u rid body) = Unaudited"
| "audit_call_of (Report_room u rid body) = Unaudited"
| "audit_call_of (Set_cover_image u rid image_id) = Unaudited"
| "audit_call_of rq = Awaited"

fun status_of :: "response \<Rightarrow> nat option" where
  "status_of (Json status body) = Some status"
| "status_of (SendStatus status) = Some status"
| "status_of (Room_info status r) = Some status"
| "status_of NoResponse = None"

subsection \<open>Example data\<close>

text \<open>
  An environment in which nothing fails, and the room of the scenarios: \<open>A\<close> creates the
  room \<open>Test\<close> (which gets the id \<open>R1\<close>), creates the role \<open>builder\<close> and assigns it to the
  user \<open>U1\<close>.
\<close>

definition env0 :: env where
  "env0 = \<lparr>now = 1000, uuid = ''R1'', audit_insert_fails = False,
           builtin_truthy = (\<lambda>m k. False), buffer_from_throws = (\<lambda>v. True)\<rparr>"

definition env_audit_down :: env where
  "env_audit_down = env0\<lparr>audit_insert_fails := True\<rparr>"

definition empty_store :: store where
  "empty_store = \<lparr>rooms = [], room_audit = [], accounts = [], images = [], files = []\<rparr>"

definition user_A :: user where
  "user_A = \<lparr>uid = ''A'', developer = False\<rparr>"


definition developer_D :: user where
  "developer_D = \<lparr>uid = ''D'', developer = True\<rparr>"

definition test_store :: store where
  "test_store = run empty_store [(env0, New_room user_A (JObj [(''name'', JStr ''Test'')]))]"

definition builder_store :: store where
  "builder_store =
     run test_store
       [(env0, Roles_new user_A ''R1'' (JObj [(''name'', JStr ''builder'')])),
        (env0, Set_role user_A ''R1'' ''U1'' ''builder'')]"

text \<open>Version metadata with a valid spawn and an \<open>author\<close> that is not the caller.\<close>

definition spoofed_metadata :: json where
  "spoofed_metadata =
     JObj [(''spawn'',
            JObj [(''position'', JObj [(''x'', JNum 1), (''y'', JNum 2), (''z'', JNum 3)]),
                  (''rotation'',
                   JObj [(''x'', JNum 0), (''y'', JNum 0), (''z'', JNum 0), (''w'', JNum 1)])]),
           (''collaborators'', JArr []),
           (''author'', JStr ''someone else'')]"




text \<open>The store after a ten-byte payload was associated with version 0 of \<open>home\<close>.\<close>

definition ten_bytes :: json where
  "ten_bytes = JStr ''AAECAwQFBgcICQ==''"

definition associated_store :: store where
  "associated_store = snd (associate_data env0 test_store user_A ''R1'' ''home'' ''0'' ten_bytes)"




subsection \<open>Invariants of the stored rooms\<close>

definition every_room :: "(room \<Rightarrow> bool) \<Rightarrow> store \<Rightarrow> bool" where
  "every_room P st = list_all (\<lambda>(rid, r). P r) (rooms st)"

text \<open>The home subroom of a room is one of its subrooms.\<close>

definition home_exists :: "room \<Rightarrow> bool" where
  "home_exists r = (homeSubroomId r \<in> set (map fst (subrooms r)))"

definition home_invariant :: "store \<Rightarrow> bool" where
  "home_invariant st = every_room home_exists st"

text \<open>A role name is a key of \<open>rolePermissions\<close>.\<close>

definition has_role :: "string \<Rightarrow> room \<Rightarrow> bool" where
  "has_role k r = (k \<in> set (map fst (rolePermissions r)))"

definition role_invariant :: "string \<Rightarrow> store \<Rightarrow> bool" where
  "role_invariant k st = every_room (has_role k) st"

text \<open>
  The lockdown of a room: a moderation-terminate request that is not permanent, which
  replaces \<open>rolePermissions\<close> by \<open>{everyone: {}}\<close>.
\<close>

fun locks_down :: "request \<Rightarrow> bool" where
  "locks_down (Moderation_terminate u rid body permanent) = (\<not> equals_true permanent)"
| "locks_down rq = False"

section \<open>Properties\<close>

subsection \<open>Role deletion\<close>

text \<open>
  C2. After a successful deletion of a role, no user should still be assigned the
  deleted role, and one \<open>role_deleted\<close> event is recorded. The handler compares each key of
  \<open>userPermissions\<close>, a user id, with the role name, so a user assigned the role keeps it:
  in the room where \<open>U1\<close> is a \<open>builder\<close>, deleting \<open>builder\<close> answers success, removes the
  role from \<open>rolePermissions\<close>, records the one event, and leaves \<open>U1\<close> mapped to \<open>builder\<close>.
\<close>

theorem roles_delete_leaves_assignment:
  "fst (roles_delete env0 builder_store user_A ''R1'' ''builder'')
     = success ''The operation was successful.''
   \<and> map_option userPermissions
         (findOne (snd (roles_delete env0 builder_store user_A ''R1'' ''builder'')) ''R1'')
       = Some [(''A'', ''owner''), (''U1'', ''builder'')]
   \<and> map_option (\<lambda>r. map fst (rolePermissions r))
         (findOne (snd (roles_delete env0 builder_store user_A ''R1'' ''builder'')) ''R1'')
       = Some [''everyone'', ''owner'']
   \<and> map (\<lambda>ev. event_type (event_data ev))
         (drop (length (room_audit builder_store))
            (room_audit (snd (roles_delete env0 builder_store user_A ''R1'' ''builder''))))
       = [RoleDeleted]"
  by code_simp

subsection \<open>Stores and middlewares\<close>

lemma list_all_update:
  "list_all (\<lambda>(k, v). P v) al \<Longrightarrow> P v' \<Longrightarrow> list_all (\<lambda>(k, v). P v) (AList.update k' v' al)"
  by (induction al) auto

lemma list_all_delete:
  "list_all (\<lambda>(k, v). P v) al \<Longrightarrow> list_all (\<lambda>(k, v). P v) (AList.delete k' al)"
  by (induction al) auto

lemma list_all_map_of:
  "list_all (\<lambda>(k, v). P v) al \<Longrightarrow> map_of al k = Some v \<Longrightarrow> P v"
  by (induction al) (auto split: if_splits)

lemma every_room_rooms: "rooms st' = rooms st \<Longrightarrow> every_room P st' = every_room P st"
  by (simp add: every_room_def)

lemma every_room_found: "every_room P st \<Longrightarrow> findOne st rid = Some r \<Longrightarrow> P r"
  unfolding every_room_def findOne_def by (rule list_all_map_of)

lemma every_room_update:
  assumes "every_room P st"
    and "\<And>r. findOne st rid = Some r \<Longrightarrow> P r \<Longrightarrow> P (f r)"
  shows "every_room P (updateOne rid f st)"
proof (cases "findOne st rid")
  case None
  then show ?thesis using assms(1) by (simp add: updateOne_def findOne_def)
next
  case (Some r)
  from assms(1) Some have "P r" by (rule every_room_found)
  with Some have "P (f r)" by (rule assms(2))
  with Some assms(1) show ?thesis
    by (simp add: updateOne_def findOne_def every_room_def list_all_update)
qed

lemma every_room_deleteOne: "every_room P st \<Longrightarrow> every_room P (deleteOne rid st)"
  by (simp add: every_room_def deleteOne_def list_all_delete)

lemma every_room_insertOne:
  "every_room P st \<Longrightarrow> P r \<Longrightarrow> insertOne r st = Some st' \<Longrightarrow> every_room P st'"
  by (auto simp: every_room_def insertOne_def split: if_splits)

lemma every_room_roomAuditLog:
  "roomAuditLog e rid usr ev st = Some st' \<Longrightarrow> every_room P st' = every_room P st"
  by (auto simp: roomAuditLog_def every_room_def split: if_splits)

lemma every_room_files: "every_room P (st\<lparr>files := fs\<rparr>) = every_room P st"
  by (simp add: every_room_def)

lemma rooms_audited: "rooms (snd (audited e rid usr ev ok err st)) = rooms st"
  by (simp add: audited_def roomAuditLog_def)

lemma rooms_detached: "rooms (roomAuditLog_detached e rid usr ev st) = rooms st"
  by (simp add: roomAuditLog_detached_def roomAuditLog_def)

lemma rooms_push_notification: "rooms (push_notification a n st) = rooms st"
  by (simp add: push_notification_def split: option.splits)

lemma gate_room:
  "requiresRoomPermission p e st u rid = Next c \<Longrightarrow> findOne st rid = Some (req_room c)"
  by (auto simp: requiresRoomPermission_def pass_def Let_def split: option.splits if_splits)

lemma home_invariant_rooms: "rooms st' = rooms st \<Longrightarrow> home_invariant st' = home_invariant st"
  by (simp add: home_invariant_def every_room_def)

lemma home_update:
  assumes "home_invariant st"
    and "\<And>r. findOne st rid = Some r \<Longrightarrow> home_exists r \<Longrightarrow> home_exists (f r)"
  shows "home_invariant (updateOne rid f st)"
  using assms unfolding home_invariant_def by (rule every_room_update)

lemma home_update_subroom: "home_exists r \<Longrightarrow> home_exists (update_subroom sid g r)"
  by (auto simp: home_exists_def update_subroom_def AList.dom_update split: option.splits)

lemma home_subroom_create:
  "home_invariant st \<Longrightarrow> home_invariant (snd (subroom_create e st u rid n body))"
  by (auto simp: subroom_create_def Let_def home_invariant_rooms [OF rooms_audited]
        home_exists_def AList.dom_update
      intro!: home_update split: gate.splits)

lemma home_subroom_delete:
  "home_invariant st \<Longrightarrow> home_invariant (snd (subroom_delete e st u rid n))"
  by (auto simp: subroom_delete_def Let_def home_invariant_rooms [OF rooms_audited]
        home_exists_def AList.delete_keys dest!: gate_room
      intro!: home_update split: gate.splits)

lemma home_set_home_subroom:
  "home_invariant st \<Longrightarrow> home_invariant (snd (set_home_subroom e st u rid n))"
  by (force simp: set_home_subroom_def Let_def home_invariant_rooms [OF rooms_audited]
        home_exists_def dest!: gate_room
      intro!: home_update split: gate.splits)

lemma home_versions_new:
  "home_invariant st \<Longrightarrow> home_invariant (snd (versions_new e st u rid sid body))"
  by (auto simp: versions_new_def Let_def home_invariant_rooms [OF rooms_audited]
      intro!: home_update home_update_subroom split: gate.splits option.splits)


lemma home_associate_data:
  "home_invariant st \<Longrightarrow> home_invariant (snd (associate_data e st u rid sid vp body))"
  by (auto simp: associate_data_def Let_def home_invariant_def every_room_files
      intro!: every_room_update home_update_subroom split: gate.splits option.splits)

lemma home_set_public_version:
  "home_invariant st \<Longrightarrow> home_invariant (snd (set_public_version e st u rid sid body))"
  by (auto simp: set_public_version_def Let_def home_invariant_rooms [OF rooms_audited]
      intro!: home_update home_update_subroom split: gate.splits option.splits)

lemma home_set_max_players:
  "home_invariant st \<Longrightarrow> home_invariant (snd (set_max_players e st u rid n count))"
  by (auto simp: set_max_players_def Let_def home_invariant_rooms [OF rooms_audited]
      intro!: home_update home_update_subroom split: gate.splits option.splits)

lemma home_set_tags:
  "home_invariant st \<Longrightarrow> home_invariant (snd (set_tags e st u rid body))"
  by (auto simp: set_tags_def Let_def home_exists_def
      intro!: home_update split: gate.splits)

lemma home_set_content_flags:
  "home_invariant st \<Longrightarrow> home_invariant (snd (set_content_flags e st u rid body))"
  by (auto simp: set_content_flags_def Let_def home_exists_def home_invariant_def
        every_room_roomAuditLog
      intro!: every_room_update split: gate.splits option.splits)

lemma home_set_description:
  "home_invariant st \<Longrightarrow> home_invariant (snd (set_description e st u rid body))"
  by (auto simp: set_description_def Let_def home_invariant_rooms [OF rooms_audited] home_exists_def
      intro!: home_update split: gate.splits)

lemma home_set_cover_image:
  "home_invariant st \<Longrightarrow> home_invariant (snd (set_cover_image e st u rid image_id))"
  by (auto simp: set_cover_image_def Let_def home_exists_def
      intro!: home_update split: gate.splits option.splits)

lemma home_roles_new:
  "home_invariant st \<Longrightarrow> home_invariant (snd (roles_new e st u rid body))"
  by (auto simp: roles_new_def Let_def home_invariant_rooms [OF rooms_audited] home_exists_def
      intro!: home_update split: gate.splits option.splits)

lemma home_roles_update:
  "home_invariant st \<Longrightarrow> home_invariant (snd (roles_update e st u rid role_name body))"
  by (auto simp: roles_update_def Let_def home_invariant_rooms [OF rooms_audited] home_exists_def
      intro!: home_update split: gate.splits option.splits sum.splits)

lemma home_roles_delete:
  "home_invariant st \<Longrightarrow> home_invariant (snd (roles_delete e st u rid role_name))"
  by (auto simp: roles_delete_def Let_def home_invariant_rooms [OF rooms_audited] home_exists_def
      intro!: home_update split: gate.splits option.splits)

lemma home_set_role:
  "home_invariant st \<Longrightarrow> home_invariant (snd (set_role e st u rid target role_name))"
  by (auto simp: set_role_def Let_def home_invariant_rooms [OF rooms_audited] home_exists_def
      intro!: home_update split: gate.splits option.splits)

lemma home_report_room:
  "home_invariant st \<Longrightarrow> home_invariant (snd (report_room e st u rid body))"
  by (auto simp: report_room_def Let_def home_exists_def
      intro!: home_update split: option.splits)

lemma home_moderation_suspend:
  "home_invariant st \<Longrightarrow> home_invariant (snd (moderation_suspend e st u rid body))"
  by (auto simp: moderation_suspend_def Let_def home_exists_def
        home_invariant_rooms [OF rooms_push_notification] home_invariant_rooms [OF rooms_detached]
      intro!: home_update split: option.splits)

lemma home_deleteOne: "home_invariant st \<Longrightarrow> home_invariant (deleteOne rid st)"
  by (simp add: home_invariant_def every_room_deleteOne)

lemma home_insertOne:
  "home_invariant st \<Longrightarrow> home_exists r \<Longrightarrow> insertOne r st = Some st' \<Longrightarrow> home_invariant st'"
  unfolding home_invariant_def by (rule every_room_insertOne)

lemma home_new_room_document: "home_exists (new_room_document e u n)"
  by (simp add: home_exists_def new_room_document_def)

lemma home_moderation_terminate:
  "home_invariant st \<Longrightarrow> home_invariant (snd (moderation_terminate e st u rid body permanent))"
  by (auto simp: moderation_terminate_def Let_def home_exists_def home_deleteOne
        home_invariant_rooms [OF rooms_push_notification] home_invariant_rooms [OF rooms_detached]
      intro!: home_update split: option.splits)

lemma home_new_room:
  "home_invariant st \<Longrightarrow> home_invariant (snd (new_room e st u body))"
  by (auto simp: new_room_def Let_def home_invariant_rooms [OF rooms_audited]
      intro: home_insertOne [OF _ home_new_room_document] split: option.splits)

lemma home_handle: "home_invariant st \<Longrightarrow> home_invariant (snd (handle e st rq))"
  by (cases rq)
     (simp_all add: home_new_room home_versions_new home_associate_data home_set_public_version
        home_set_tags home_set_content_flags home_moderation_suspend home_moderation_terminate
        home_set_description home_report_room home_roles_new home_roles_update home_roles_delete
        home_set_role home_set_cover_image home_subroom_create home_subroom_delete
        home_set_max_players home_set_home_subroom)

lemma home_run: "home_invariant st \<Longrightarrow> home_invariant (run st reqs)"
  by (induction reqs arbitrary: st) (auto simp: home_handle)

text \<open>
  C3. Whatever requests are handled, the home subroom of every room stays one of its
  subrooms. In particular, a request to delete the subroom that is the home of its room
  leaves the store as it is and, once past the permission check, is answered with
  400 \<open>invalid_input\<close>; a request to make a name that is no subroom the home is answered
  with 404 \<open>not_found\<close> and changes nothing.
\<close>

theorem home_subroom_is_kept:
  assumes "home_invariant st"
  shows "home_invariant (run st reqs)
    \<and> (\<forall>e u rid c.
          requiresRoomPermission ''deleteSubrooms'' e st u rid = Next c \<longrightarrow>
          subroom_delete e st u rid (homeSubroomId (req_room c))
            = (code_message 400 ''invalid_input''
                 ''You cannot delete the home subroom of a room.'', st))
    \<and> (\<forall>e u rid r. findOne st rid = Some r \<longrightarrow>
          snd (subroom_delete e st u rid (homeSubroomId r)) = st)
    \<and> (\<forall>e u rid n c.
          requiresRoomPermission ''setHomeSubroom'' e st u rid = Next c \<longrightarrow>
          n \<notin> set (map fst (subrooms (req_room c))) \<longrightarrow>
          set_home_subroom e st u rid n
            = (code_message 404 ''not_found''
                 ''No subroom with that name exists on this room.'', st))"
proof (intro conjI allI impI)
  show "home_invariant (run st reqs)"
    using assms by (rule home_run)
next
  fix e u rid c
  assume gate: "requiresRoomPermission ''deleteSubrooms'' e st u rid = Next c"
  then have "findOne st rid = Some (req_room c)"
    by (rule gate_room)
  with assms have "home_exists (req_room c)"
    unfolding home_invariant_def by (rule every_room_found)
  with gate show "subroom_delete e st u rid (homeSubroomId (req_room c))
      = (code_message 400 ''invalid_input''
           ''You cannot delete the home subroom of a room.'', st)"
    by (simp add: subroom_delete_def home_exists_def)
next
  fix e u rid r
  assume found: "findOne st rid = Some r"
  show "snd (subroom_delete e st u rid (homeSubroomId r)) = st"
  proof (cases "requiresRoomPermission ''deleteSubrooms'' e st u rid")
    case (Next c)
    with found have "req_room c = r"
      using gate_room by fastforce
    with Next show ?thesis
      by (simp add: subroom_delete_def)
  next
    case (Stop resp)
    then show ?thesis
      by (simp add: subroom_delete_def)
  qed
next
  fix e u rid n c
  assume "requiresRoomPermission ''setHomeSubroom'' e st u rid = Next c"
    and "n \<notin> set (map fst (subrooms (req_room c)))"
  then show "set_home_subroom e st u rid n
      = (code_message 404 ''not_found''
           ''No subroom with that name exists on this room.'', st)"
    by (simp add: set_home_subroom_def)
qed

theorem home_subroom_is_kept_witness:
  "home_invariant test_store
   \<and> home_invariant
       (run test_store
          [(env0, Subroom_delete user_A ''R1'' ''home''),
           (env0, Subroom_create user_A ''R1'' ''attic'' (JObj [])),
           (env0, Set_home_subroom user_A ''R1'' ''attic''),
           (env0, Subroom_delete user_A ''R1'' ''home'')])
   \<and> subroom_delete env0 test_store user_A ''R1'' ''home''
       = (code_message 400 ''invalid_input''
            ''You cannot delete the home subroom of a room.'', test_store)
   \<and> set_home_subroom env0 test_store user_A ''R1'' ''cellar''
       = (code_message 404 ''not_found''
            ''No subroom with that name exists on this room.'', test_store)"
proof -
  have inv: "home_invariant test_store"
    by code_simp
  have "case requiresRoomPermission ''deleteSubrooms'' env0 test_store user_A ''R1'' of
          Next c \<Rightarrow> homeSubroomId (req_room c) = ''home''
        | Stop r \<Rightarrow> False"
    by code_simp
  then obtain c where del:
      "requiresRoomPermission ''deleteSubrooms'' env0 test_store user_A ''R1'' = Next c"
      "homeSubroomId (req_room c) = ''home''"
    by (auto split: gate.splits)
  have "case requiresRoomPermission ''setHomeSubroom'' env0 test_store user_A ''R1'' of
          Next c \<Rightarrow> ''cellar'' \<notin> set (map fst (subrooms (req_room c)))
        | Stop r \<Rightarrow> False"
    by code_simp
  then obtain c' where home:
      "requiresRoomPermission ''setHomeSubroom'' env0 test_store user_A ''R1'' = Next c'"
      "''cellar'' \<notin> set (map fst (subrooms (req_room c')))"
    by (auto split: gate.splits)
  note kept = home_subroom_is_kept [OF inv]
  from kept have "home_invariant (run test_store
          [(env0, Subroom_delete user_A ''R1'' ''home''),
           (env0, Subroom_create user_A ''R1'' ''attic'' (JObj [])),
           (env0, Set_home_subroom user_A ''R1'' ''attic''),
           (env0, Subroom_delete user_A ''R1'' ''home'')])"
    by blast
  moreover from kept del have "subroom_delete env0 test_store user_A ''R1'' ''home''
       = (code_message 400 ''invalid_input''
            ''You cannot delete the home subroom of a room.'', test_store)"
    by metis
  moreover from kept home have "set_home_subroom env0 test_store user_A ''R1'' ''cellar''
       = (code_message 404 ''not_found''
            ''No subroom with that name exists on this room.'', test_store)"
    by blast
  ultimately show ?thesis
    using inv by blast
qed

subsection \<open>Reserved roles\<close>

lemma role_invariant_rooms: "rooms st' = rooms st \<Longrightarrow> role_invariant k st' = role_invariant k st"
  by (simp add: role_invariant_def every_room_def)

lemma role_update:
  assumes "role_invariant k st"
    and "\<And>r. findOne st rid = Some r \<Longrightarrow> has_role k r \<Longrightarrow> has_role k (f r)"
  shows "role_invariant k (updateOne rid f st)"
  using assms unfolding role_invariant_def by (rule every_room_update)

lemma role_update_subroom: "has_role k r \<Longrightarrow> has_role k (update_subroom sid g r)"
  by (auto simp: has_role_def update_subroom_def split: option.splits)

lemma role_subroom_create:
  "role_invariant k st \<Longrightarrow> role_invariant k (snd (subroom_create e st u rid n body))"
  by (auto simp: subroom_create_def Let_def role_invariant_rooms [OF rooms_audited] has_role_def
      intro!: role_update split: gate.splits)

lemma role_subroom_delete:
  "role_invariant k st \<Longrightarrow> role_invariant k (snd (subroom_delete e st u rid n))"
  by (auto simp: subroom_delete_def Let_def role_invariant_rooms [OF rooms_audited] has_role_def
      intro!: role_update split: gate.splits)

lemma role_set_home_subroom:
  "role_invariant k st \<Longrightarrow> role_invariant k (snd (set_home_subroom e st u rid n))"
  by (auto simp: set_home_subroom_def Let_def role_invariant_rooms [OF rooms_audited] has_role_def
      intro!: role_update split: gate.splits)

lemma role_versions_new:
  "role_invariant k st \<Longrightarrow> role_invariant k (snd (versions_new e st u rid sid body))"
  by (auto simp: versions_new_def Let_def role_invariant_rooms [OF rooms_audited]
      intro!: role_update role_update_subroom split: gate.splits option.splits)

lemma role_associate_data:
  "role_invariant k st \<Longrightarrow> role_invariant k (snd (associate_data e st u rid sid vp body))"
  by (auto simp: associate_data_def Let_def role_invariant_def every_room_files
      intro!: every_room_update role_update_subroom split: gate.splits option.splits)

lemma role_set_public_version:
  "role_invariant k st \<Longrightarrow> role_invariant k (snd (set_public_version e st u rid sid body))"
  by (auto simp: set_public_version_def Let_def role_invariant_rooms [OF rooms_audited]
      intro!: role_update role_update_subroom split: gate.splits option.splits)

lemma role_set_max_players:
  "role_invariant k st \<Longrightarrow> role_invariant k (snd (set_max_players e st u rid n count))"
  by (auto simp: set_max_players_def Let_def role_invariant_rooms [OF rooms_audited]
      intro!: role_update role_update_subroom split: gate.splits option.splits)

lemma role_set_tags:
  "role_invariant k st \<Longrightarrow> role_invariant k (snd (set_tags e st u rid body))"
  by (auto simp: set_tags_def Let_def has_role_def
      intro!: role_update split: gate.splits)

lemma role_set_content_flags:
  "role_invariant k st \<Longrightarrow> role_invariant k (snd (set_content_flags e st u rid body))"
  by (auto simp: set_content_flags_def Let_def has_role_def role_invariant_def
        every_room_roomAuditLog
      intro!: every_room_update split: gate.splits option.splits)

lemma role_set_description:
  "role_invariant k st \<Longrightarrow> role_invariant k (snd (set_description e st u rid body))"
  by (auto simp: set_description_def Let_def role_invariant_rooms [OF rooms_audited] has_role_def
      intro!: role_update split: gate.splits)

lemma role_set_cover_image:
  "role_invariant k st \<Longrightarrow> role_invariant k (snd (set_cover_image e st u rid image_id))"
  by (auto simp: set_cover_image_def Let_def has_role_def
      intro!: role_update split: gate.splits option.splits)

lemma role_set_role:
  "role_invariant k st \<Longrightarrow> role_invariant k (snd (set_role e st u rid target role_name))"
  by (auto simp: set_role_def Let_def role_invariant_rooms [OF rooms_audited] has_role_def
      intro!: role_update split: gate.splits option.splits)

lemma role_report_room:
  "role_invariant k st \<Longrightarrow> role_invariant k (snd (report_room e st u rid body))"
  by (auto simp: report_room_def Let_def has_role_def
      intro!: role_update split: option.splits)

lemma role_roles_new:
  "role_invariant k st \<Longrightarrow> role_invariant k (snd (roles_new e st u rid body))"
  by (auto simp: roles_new_def Let_def role_invariant_rooms [OF rooms_audited] has_role_def
        AList.dom_update
      intro!: role_update split: gate.splits option.splits)

lemma store_role_keys: "k \<in> fst ` set rp \<Longrightarrow> k \<in> fst ` set (store_role role_name target rp)"
  by (cases target) (simp_all add: AList.dom_update)

lemma role_roles_update:
  "role_invariant k st \<Longrightarrow> role_invariant k (snd (roles_update e st u rid role_name body))"
  by (auto simp: roles_update_def Let_def role_invariant_rooms [OF rooms_audited] has_role_def
        store_role_keys
      intro!: role_update split: gate.splits option.splits sum.splits)

lemma role_roles_delete:
  "role_invariant k st \<Longrightarrow> k \<in> {''owner'', ''everyone''} \<Longrightarrow>
   role_invariant k (snd (roles_delete e st u rid role_name))"
  by (auto simp: roles_delete_def Let_def role_invariant_rooms [OF rooms_audited] has_role_def
        AList.delete_keys
      intro!: role_update split: gate.splits option.splits)

lemma set_permission_keys: "k \<in> fst ` set rp \<Longrightarrow> k \<in> fst ` set (set_permission role p b rp)"
  by (simp add: set_permission_def AList.dom_update)

lemma role_moderation_suspend:
  "role_invariant k st \<Longrightarrow> role_invariant k (snd (moderation_suspend e st u rid body))"
  by (auto simp: moderation_suspend_def Let_def has_role_def set_permission_keys
        role_invariant_rooms [OF rooms_push_notification] role_invariant_rooms [OF rooms_detached]
      intro!: role_update split: option.splits)

lemma role_deleteOne: "role_invariant k st \<Longrightarrow> role_invariant k (deleteOne rid st)"
  by (simp add: role_invariant_def every_room_deleteOne)

lemma everyone_moderation_terminate:
  "role_invariant ''everyone'' st \<Longrightarrow>
   role_invariant ''everyone'' (snd (moderation_terminate e st u rid body permanent))"
  by (auto simp: moderation_terminate_def Let_def has_role_def role_deleteOne
        role_invariant_rooms [OF rooms_push_notification] role_invariant_rooms [OF rooms_detached]
      intro!: role_update split: option.splits)

lemma role_permanent_terminate:
  "role_invariant k st \<Longrightarrow> equals_true permanent \<Longrightarrow>
   role_invariant k (snd (moderation_terminate e st u rid body permanent))"
  by (auto simp: moderation_terminate_def Let_def role_deleteOne
        role_invariant_rooms [OF rooms_detached]
      split: option.splits)

lemma role_new_room_document:
  "k \<in> {''owner'', ''everyone''} \<Longrightarrow> has_role k (new_room_document e u n)"
  by (auto simp: has_role_def new_room_document_def)

lemma role_insertOne:
  "role_invariant k st \<Longrightarrow> has_role k r \<Longrightarrow> insertOne r st = Some st' \<Longrightarrow>
   role_invariant k st'"
  unfolding role_invariant_def by (rule every_room_insertOne)

lemma role_new_room:
  "role_invariant k st \<Longrightarrow> k \<in> {''owner'', ''everyone''} \<Longrightarrow>
   role_invariant k (snd (new_room e st u body))"
  by (auto simp: new_room_def Let_def role_invariant_rooms [OF rooms_audited]
      intro: role_insertOne role_new_room_document split: option.splits)

lemma everyone_handle:
  "role_invariant ''everyone'' st \<Longrightarrow> role_invariant ''everyone'' (snd (handle e st rq))"
  by (cases rq)
     (simp_all add: role_new_room role_versions_new role_associate_data role_set_public_version
        role_set_tags role_set_content_flags role_moderation_suspend everyone_moderation_terminate
        role_set_description role_report_room role_roles_new role_roles_update role_roles_delete
        role_set_role role_set_cover_image role_subroom_create role_subroom_delete
        role_set_max_players role_set_home_subroom)

lemma owner_handle:
  "role_invariant ''owner'' st \<Longrightarrow> \<not> locks_down rq \<Longrightarrow>
   role_invariant ''owner'' (snd (handle e st rq))"
  by (cases rq)
     (simp_all add: role_new_room role_versions_new role_associate_data role_set_public_version
        role_set_tags role_set_content_flags role_moderation_suspend role_permanent_terminate
        role_set_description role_report_room role_roles_new role_roles_update role_roles_delete
        role_set_role role_set_cover_image role_subroom_create role_subroom_delete
        role_set_max_players role_set_home_subroom)

lemma everyone_run: "role_invariant ''everyone'' st \<Longrightarrow> role_invariant ''everyone'' (run st reqs)"
  by (induction reqs arbitrary: st) (auto simp: everyone_handle)

lemma owner_run:
  "role_invariant ''owner'' st \<Longrightarrow> list_all (\<lambda>(e, rq). \<not> locks_down rq) reqs \<Longrightarrow>
   role_invariant ''owner'' (run st reqs)"
  by (induction reqs arbitrary: st) (auto simp: owner_handle)

lemma findOne_updateOne: "findOne (updateOne rid f st) rid = map_option f (findOne st rid)"
  by (simp add: findOne_def updateOne_def AList.update_conv' split: option.splits)

lemma findOne_rooms: "rooms st' = rooms st \<Longrightarrow> findOne st' = findOne st"
  by (simp add: findOne_def fun_eq_iff)

text \<open>
  C6, as the code has it. The key \<open>everyone\<close> stays in \<open>rolePermissions\<close> of every room
  whatever requests are handled, and so does the key \<open>owner\<close> as long as no room is locked
  down; a lockdown (moderation-terminate that is not permanent) replaces \<open>rolePermissions\<close>
  by \<open>{everyone: {}}\<close>. Creating or deleting a role named \<open>owner\<close> or \<open>everyone\<close> is
  answered with 400 \<open>invalid_input\<close> and changes nothing. No request renames a role.
\<close>

theorem reserved_roles_are_kept:
  assumes "role_invariant ''everyone'' st" and "role_invariant ''owner'' st"
  shows "role_invariant ''everyone'' (run st reqs)
    \<and> (list_all (\<lambda>(e, rq). \<not> locks_down rq) reqs \<longrightarrow> role_invariant ''owner'' (run st reqs))
    \<and> (\<forall>e u rid body permanent r.
          findOne st rid = Some r \<longrightarrow> body \<noteq> JNull \<longrightarrow>
          \<not> (truthy (js_prop body ''note'') \<and> typeof (js_prop body ''note'') \<noteq> T_string) \<longrightarrow>
          \<not> equals_true permanent \<longrightarrow>
          map_option rolePermissions
            (findOne (snd (moderation_terminate e st u rid body permanent)) rid)
            = Some [(''everyone'', [])])
    \<and> (\<forall>e u rid c body n.
          requiresRoomPermission ''managePermissions'' e st u rid = Next c \<longrightarrow>
          body \<noteq> JNull \<longrightarrow> js_prop body ''name'' = Some (JStr n) \<longrightarrow>
          n \<in> {''owner'', ''everyone''} \<longrightarrow>
          roles_new e st u rid body
            = (code_message 400 ''invalid_input''
                 ''Cannot create a role with a reserved name like 'owner' or 'everyone'.'', st))
    \<and> (\<forall>e u rid c n.
          requiresRoomPermission ''managePermissions'' e st u rid = Next c \<longrightarrow>
          n \<in> {''owner'', ''everyone''} \<longrightarrow>
          roles_delete e st u rid n
            = (code_message 400 ''invalid_input''
                 ''You cannot delete a reserved role. (i.e 'owner' or 'everyone')'', st))"
proof (intro conjI allI impI)
  show "role_invariant ''everyone'' (run st reqs)"
    using assms(1) by (rule everyone_run)
next
  assume "list_all (\<lambda>(e, rq). \<not> locks_down rq) reqs"
  with assms(2) show "role_invariant ''owner'' (run st reqs)"
    by (rule owner_run)
next
  fix e u rid body permanent r
  assume "findOne st rid = Some r" "body \<noteq> JNull"
    "\<not> (truthy (js_prop body ''note'') \<and> typeof (js_prop body ''note'') \<noteq> T_string)"
    "\<not> equals_true permanent"
  then show "map_option rolePermissions
      (findOne (snd (moderation_terminate e st u rid body permanent)) rid)
      = Some [(''everyone'', [])]"
    by (auto simp: moderation_terminate_def Let_def findOne_updateOne
        findOne_rooms [OF rooms_push_notification] findOne_rooms [OF rooms_detached])
next
  fix e u rid c body n
  assume "requiresRoomPermission ''managePermissions'' e st u rid = Next c"
    "body \<noteq> JNull" "js_prop body ''name'' = Some (JStr n)" "n \<in> {''owner'', ''everyone''}"
  then show "roles_new e st u rid body
      = (code_message 400 ''invalid_input''
           ''Cannot create a role with a reserved name like 'owner' or 'everyone'.'', st)"
    by (auto simp: roles_new_def)
next
  fix e u rid c n
  assume "requiresRoomPermission ''managePermissions'' e st u rid = Next c"
    "n \<in> {''owner'', ''everyone''}"
  then show "roles_delete e st u rid n
      = (code_message 400 ''invalid_input''
           ''You cannot delete a reserved role. (i.e 'owner' or 'everyone')'', st)"
    by (auto simp: roles_delete_def)
qed

theorem reserved_roles_are_kept_witness:
  "role_invariant ''everyone'' test_store \<and> role_invariant ''owner'' test_store
   \<and> role_invariant ''everyone''
       (run test_store [(env0, Moderation_terminate developer_D ''R1'' (JObj []) None)])
   \<and> role_invariant ''owner''
       (run test_store
          [(env0, Roles_new user_A ''R1'' (JObj [(''name'', JStr ''builder'')])),
           (env0, Roles_delete user_A ''R1'' ''builder''),
           (env0, Moderation_suspend developer_D ''R1'' (JObj []))])
   \<and> map_option rolePermissions
         (findOne (snd (moderation_terminate env0 test_store developer_D ''R1'' (JObj []) None)) ''R1'')
       = Some [(''everyone'', [])]
   \<and> roles_new env0 test_store user_A ''R1'' (JObj [(''name'', JStr ''owner'')])
       = (code_message 400 ''invalid_input''
            ''Cannot create a role with a reserved name like 'owner' or 'everyone'.'', test_store)
   \<and> roles_delete env0 test_store user_A ''R1'' ''everyone''
       = (code_message 400 ''invalid_input''
            ''You cannot delete a reserved role. (i.e 'owner' or 'everyone')'', test_store)"
proof -
  have everyone: "role_invariant ''everyone'' test_store"
    by code_simp
  have owner: "role_invariant ''owner'' test_store"
    by code_simp
  have quiet: "list_all (\<lambda>(e, rq). \<not> locks_down rq)
      [(env0, Roles_new user_A ''R1'' (JObj [(''name'', JStr ''builder'')])),
       (env0, Roles_delete user_A ''R1'' ''builder''),
       (env0, Moderation_suspend developer_D ''R1'' (JObj []))]"
    by simp
  have room: "case findOne test_store ''R1'' of Some r \<Rightarrow> True | None \<Rightarrow> False"
    by code_simp
  then obtain r where found: "findOne test_store ''R1'' = Some r"
    by (auto split: option.splits)
  have "case requiresRoomPermission ''managePermissions'' env0 test_store user_A ''R1'' of
          Next c \<Rightarrow> True | Stop r \<Rightarrow> False"
    by code_simp
  then obtain c where gate:
      "requiresRoomPermission ''managePermissions'' env0 test_store user_A ''R1'' = Next c"
    by (auto split: gate.splits)
  have note_ok: "\<not> (truthy (js_prop (JObj []) ''note'') \<and> typeof (js_prop (JObj []) ''note'') \<noteq> T_string)"
    by simp
  have temporary: "\<not> equals_true None"
    by (simp add: equals_true_def)
  have name: "js_prop (JObj [(''name'', JStr ''owner'')]) ''name'' = Some (JStr ''owner'')"
    by simp
  note kept = reserved_roles_are_kept [OF everyone owner]
  have "role_invariant ''everyone''
       (run test_store [(env0, Moderation_terminate developer_D ''R1'' (JObj []) None)])"
    using kept by blast
  moreover have "role_invariant ''owner''
       (run test_store
          [(env0, Roles_new user_A ''R1'' (JObj [(''name'', JStr ''builder'')])),
           (env0, Roles_delete user_A ''R1'' ''builder''),
           (env0, Moderation_suspend developer_D ''R1'' (JObj []))])"
    using kept quiet by blast
  moreover have "map_option rolePermissions
         (findOne (snd (moderation_terminate env0 test_store developer_D ''R1'' (JObj []) None)) ''R1'')
       = Some [(''everyone'', [])]"
    using kept found note_ok temporary by blast
  moreover have "roles_new env0 test_store user_A ''R1'' (JObj [(''name'', JStr ''owner'')])
       = (code_message 400 ''invalid_input''
            ''Cannot create a role with a reserved name like 'owner' or 'everyone'.'', test_store)"
    using kept gate name by blast
  moreover have "roles_delete env0 test_store user_A ''R1'' ''everyone''
       = (code_message 400 ''invalid_input''
            ''You cannot delete a reserved role. (i.e 'owner' or 'everyone')'', test_store)"
    using kept gate by blast
  ultimately show ?thesis
    using everyone owner by blast
qed

text \<open>
  C6 as stated fails: the lockdown removes the key \<open>owner\<close> from the room \<open>Test\<close>.
\<close>

theorem lockdown_removes_owner_role:
  "role_invariant ''owner'' test_store
   \<and> \<not> role_invariant ''owner''
         (run test_store [(env0, Moderation_terminate developer_D ''R1'' (JObj []) None)])"
  by code_simp

subsection \<open>Appending and flagging versions\<close>

lemma findOne_audited:
  "findOne (snd (audited e rid usr ev ok err st)) = findOne st"
  by (rule findOne_rooms) (rule rooms_audited)

lemma audited_ok:
  "\<not> audit_insert_fails e \<Longrightarrow> fst (audited e rid usr ev ok err st) = ok"
  by (simp add: audited_def roomAuditLog_def)

lemma subroom_found:
  assumes "sid \<in> set (map fst (subrooms r))"
  obtains s where "map_of (subrooms r) sid = Some s"
  using assms by (cases "map_of (subrooms r) sid") (auto simp: map_of_eq_None_iff)


subsection \<open>Associating data with a version\<close>

lemma gate_never_succeeds:
  "requiresRoomPermission p e st u rid = Stop r \<Longrightarrow> r \<noteq> success m"
  by (auto simp: requiresRoomPermission_def pass_def Let_def success_def code_message_def
      split: option.splits if_splits)

lemma associate_data_refused:
  assumes "requiresRoomPermission ''createVersions'' e st u rid = Next c"
    and "parseInt version_param = Some n"
    and "subroom_id \<in> set (map fst (subrooms (req_room c)))"
    and "0 \<le> n" and "n < int (length (versions_of (req_room c) subroom_id))"
    and "associated_file (versions_of (req_room c) subroom_id ! nat n)"
  shows "associate_data e st u rid subroom_id version_param body = (already_associated, st)"
proof -
  have "findOne st rid = Some (req_room c)"
    using assms(1) by (rule gate_room)
  with assms show ?thesis
    by (simp add: associate_data_def already_associated_def)
qed

lemma associate_data_success:
  assumes "associate_data e st u rid subroom_id version_param body
             = (success ''Operation successful.'', st1)"
  obtains c n where
    "requiresRoomPermission ''createVersions'' e st u rid = Next c"
    "parseInt version_param = Some n"
    "subroom_id \<in> set (map fst (subrooms (req_room c)))"
    "0 \<le> n" "n < int (length (versions_of (req_room c) subroom_id))"
    "st1 = updateOne rid
             (update_subroom subroom_id
                (\<lambda>s. s\<lparr>versions := (versions s)[nat n :=
                           (versions s ! nat n)\<lparr>associated_file := True\<rparr>]\<rparr>))
             (st\<lparr>files := AList.update (version_file rid subroom_id n) (Buffer_from body)
                              (files st)\<rparr>)"
proof (cases "requiresRoomPermission ''createVersions'' e st u rid")
  case (Stop r)
  with assms have "r = success ''Operation successful.''"
    by (simp add: associate_data_def)
  with Stop show ?thesis
    using gate_never_succeeds by blast
next
  case (Next c)
  then have found: "findOne st rid = Some (req_room c)"
    by (rule gate_room)
  from assms Next found obtain n where n: "parseInt version_param = Some n"
    by (cases "parseInt version_param")
       (auto simp: associate_data_def success_def code_message_def already_associated_def)
  from assms Next found n have checks:
      "subroom_id \<in> set (map fst (subrooms (req_room c)))"
      "\<not> int (length (versions_of (req_room c) subroom_id)) - 1 < n" "\<not> n < 0"
      "Buffer_from_base64 e body \<noteq> None"
    by (auto simp: associate_data_def success_def code_message_def associate_data_error_def
        already_associated_def split: if_splits option.splits)
  then have buffer: "Buffer_from_base64 e body = Some (Buffer_from body)"
    by (auto simp: Buffer_from_base64_def split: json.splits if_splits)
  from assms Next found n checks buffer
  have "st1 = updateOne rid
             (update_subroom subroom_id
                (\<lambda>s. s\<lparr>versions := (versions s)[nat n :=
                           (versions s ! nat n)\<lparr>associated_file := True\<rparr>]\<rparr>))
             (st\<lparr>files := AList.update (version_file rid subroom_id n) (Buffer_from body)
                              (files st)\<rparr>)"
    by (auto simp: associate_data_def success_def code_message_def associate_data_error_def
        already_associated_def split: if_splits option.splits)
  with Next n checks show ?thesis
    by (intro that [of c n]) auto
qed

lemma files_updateOne: "files (updateOne rid f st) = files st"
  by (simp add: updateOne_def split: option.splits)

lemma findOne_files: "findOne (st\<lparr>files := fs\<rparr>) = findOne st"
  by (simp add: findOne_def fun_eq_iff)

lemma subrooms_update_subroom:
  "set (map fst (subrooms (update_subroom sid g r))) = set (map fst (subrooms r))"
  by (force simp: update_subroom_def AList.dom_update split: option.splits
      dest: map_of_SomeD)

lemma versions_of_flag:
  assumes "sid \<in> set (map fst (subrooms r))"
  shows "versions_of
           (update_subroom sid
              (\<lambda>s. s\<lparr>versions := (versions s)[i := (versions s ! i)\<lparr>associated_file := True\<rparr>]\<rparr>) r)
           sid
         = (versions_of r sid)[i := (versions_of r sid ! i)\<lparr>associated_file := True\<rparr>]"
proof -
  from assms obtain s where "map_of (subrooms r) sid = Some s"
    by (rule subroom_found)
  then show ?thesis
    by (simp add: versions_of_def update_subroom_def AList.update_conv')
qed

text \<open>
  C5. A call of associate-data on a version whose \<open>associated_file\<close> flag is set is
  answered with 400 \<open>file_already_associated\<close> and leaves the store, and so the stored
  payload, as it is. After a call that succeeded, a second call on the same version is
  refused in this way, whatever payload it carries, and the file still holds the payload
  of the first call.
\<close>

theorem association_happens_once:
  "(requiresRoomPermission ''createVersions'' e st u rid = Next c
      \<and> parseInt version_param = Some n
      \<and> subroom_id \<in> set (map fst (subrooms (req_room c)))
      \<and> 0 \<le> n \<and> n < int (length (versions_of (req_room c) subroom_id))
      \<and> associated_file (versions_of (req_room c) subroom_id ! nat n)
    \<longrightarrow> associate_data e st u rid subroom_id version_param body = (already_associated, st))
   \<and> (associate_data e st u rid subroom_id version_param body
         = (success ''Operation successful.'', st1)
      \<and> requiresRoomPermission ''createVersions'' e' st1 u' rid = Next c'
      \<and> parseInt version_param' = parseInt version_param
    \<longrightarrow> associate_data e' st1 u' rid subroom_id version_param' body' = (already_associated, st1)
        \<and> (\<exists>i. parseInt version_param = Some i
              \<and> map_of (files st1) (version_file rid subroom_id i) = Some (Buffer_from body)))"
proof (rule conjI; rule impI; elim conjE)
  assume "requiresRoomPermission ''createVersions'' e st u rid = Next c"
    "parseInt version_param = Some n"
    "subroom_id \<in> set (map fst (subrooms (req_room c)))"
    "0 \<le> n" "n < int (length (versions_of (req_room c) subroom_id))"
    "associated_file (versions_of (req_room c) subroom_id ! nat n)"
  then show "associate_data e st u rid subroom_id version_param body = (already_associated, st)"
    by (rule associate_data_refused)
next
  assume first: "associate_data e st u rid subroom_id version_param body
      = (success ''Operation successful.'', st1)"
    and gate': "requiresRoomPermission ''createVersions'' e' st1 u' rid = Next c'"
    and same: "parseInt version_param' = parseInt version_param"
  let ?flag = "\<lambda>i. update_subroom subroom_id
      (\<lambda>s. s\<lparr>versions := (versions s)[i := (versions s ! i)\<lparr>associated_file := True\<rparr>]\<rparr>)"
  from first obtain c0 i where
      gate: "requiresRoomPermission ''createVersions'' e st u rid = Next c0"
      and parsed: "parseInt version_param = Some i"
      and sub: "subroom_id \<in> set (map fst (subrooms (req_room c0)))"
      and range: "0 \<le> i" "i < int (length (versions_of (req_room c0) subroom_id))"
      and st1: "st1 = updateOne rid (?flag (nat i))
                 (st\<lparr>files := AList.update (version_file rid subroom_id i) (Buffer_from body)
                                  (files st)\<rparr>)"
    by (rule associate_data_success)
  have "findOne st rid = Some (req_room c0)"
    using gate by (rule gate_room)
  then have "findOne st1 rid = Some (?flag (nat i) (req_room c0))"
    by (simp add: st1 findOne_updateOne findOne_files)
  moreover have "findOne st1 rid = Some (req_room c')"
    using gate' by (rule gate_room)
  ultimately have room': "req_room c' = ?flag (nat i) (req_room c0)"
    by simp
  have sub': "subroom_id \<in> set (map fst (subrooms (req_room c')))"
    unfolding room' subrooms_update_subroom by (rule sub)
  have versions': "versions_of (req_room c') subroom_id
      = (versions_of (req_room c0) subroom_id)
          [nat i := (versions_of (req_room c0) subroom_id ! nat i)\<lparr>associated_file := True\<rparr>]"
    unfolding room' using sub by (rule versions_of_flag)
  have index: "nat i < length (versions_of (req_room c0) subroom_id)"
    using range by simp
  have range': "i < int (length (versions_of (req_room c') subroom_id))"
    using range by (simp add: versions')
  have flag': "associated_file (versions_of (req_room c') subroom_id ! nat i)"
    using index by (simp add: versions')
  have parsed': "parseInt version_param' = Some i"
    using same parsed by simp
  have refused: "associate_data e' st1 u' rid subroom_id version_param' body'
      = (already_associated, st1)"
    using gate' parsed' sub' range(1) range' flag' by (rule associate_data_refused)
  have "map_of (files st1) (version_file rid subroom_id i) = Some (Buffer_from body)"
    by (simp add: st1 files_updateOne AList.update_conv')
  with refused parsed show "associate_data e' st1 u' rid subroom_id version_param' body'
        = (already_associated, st1)
      \<and> (\<exists>i. parseInt version_param = Some i
            \<and> map_of (files st1) (version_file rid subroom_id i) = Some (Buffer_from body))"
    by simp
qed

theorem association_happens_once_witness:
  "associate_data env0 test_store user_A ''R1'' ''home'' ''0'' ten_bytes
     = (success ''Operation successful.'', associated_store)
   \<and> associate_data env0 associated_store user_A ''R1'' ''home'' ''00'' (JStr ''AAAA'')
       = (already_associated, associated_store)
   \<and> associate_data env0 associated_store developer_D ''R1'' ''home'' ''0'' (JStr ''AAAA'')
       = (already_associated, associated_store)
   \<and> map_of (files associated_store) (version_file ''R1'' ''home'' 0) = Some (Buffer_from ten_bytes)"
proof -
  have "fst (associate_data env0 test_store user_A ''R1'' ''home'' ''0'' ten_bytes)
      = success ''Operation successful.''"
    by code_simp
  then have first: "associate_data env0 test_store user_A ''R1'' ''home'' ''0'' ten_bytes
      = (success ''Operation successful.'', associated_store)"
    by (simp add: associated_store_def prod_eq_iff)
  have "case requiresRoomPermission ''createVersions'' env0 associated_store user_A ''R1'' of
          Next c \<Rightarrow> True | Stop r \<Rightarrow> False"
    by code_simp
  then obtain c where again:
      "requiresRoomPermission ''createVersions'' env0 associated_store user_A ''R1'' = Next c"
    by (auto split: gate.splits)
  have same: "parseInt ''00'' = parseInt ''0''"
    by code_simp
  have zero: "parseInt ''0'' = Some 0"
    by code_simp
  have "case requiresRoomPermission ''createVersions'' env0 associated_store developer_D ''R1'' of
          Next c \<Rightarrow> ''home'' \<in> set (map fst (subrooms (req_room c)))
                    \<and> (0::int) < int (length (versions_of (req_room c) ''home''))
                    \<and> associated_file (versions_of (req_room c) ''home'' ! nat 0)
        | Stop r \<Rightarrow> False"
    by code_simp
  then obtain d where dev:
      "requiresRoomPermission ''createVersions'' env0 associated_store developer_D ''R1'' = Next d"
      "''home'' \<in> set (map fst (subrooms (req_room d)))"
      "(0::int) < int (length (versions_of (req_room d) ''home''))"
      "associated_file (versions_of (req_room d) ''home'' ! nat 0)"
    by (auto split: gate.splits)
  have second: "associate_data env0 associated_store user_A ''R1'' ''home'' ''00'' (JStr ''AAAA'')
        = (already_associated, associated_store)
      \<and> (\<exists>i. parseInt ''0'' = Some i
            \<and> map_of (files associated_store) (version_file ''R1'' ''home'' i)
                = Some (Buffer_from ten_bytes))"
    using association_happens_once
      [where e = env0 and st = test_store and u = user_A and rid = "''R1''"
         and subroom_id = "''home''" and version_param = "''0''" and body = ten_bytes
         and ?st1.0 = associated_store and e' = env0 and u' = user_A and c' = c
         and version_param' = "''00''" and body' = "JStr ''AAAA''"]
      first again same by blast
  have direct: "associate_data env0 associated_store developer_D ''R1'' ''home'' ''0'' (JStr ''AAAA'')
        = (already_associated, associated_store)"
    using association_happens_once
      [where e = env0 and st = associated_store and u = developer_D and rid = "''R1''"
         and c = d and subroom_id = "''home''" and version_param = "''0''" and n = 0
         and body = "JStr ''AAAA''"]
      dev zero by simp
  from second zero have "map_of (files associated_store) (version_file ''R1'' ''home'' 0)
      = Some (Buffer_from ten_bytes)"
    by auto
  with first second direct show ?thesis
    by blast
qed

subsection \<open>Permanent termination\<close>

lemma ids_updateOne: "fst ` set (rooms (updateOne rid f st)) = fst ` set (rooms st)"
  by (auto simp: updateOne_def AList.dom_update split: option.splits dest: map_of_SomeD
      intro: rev_image_eqI)

lemma ids_deleteOne: "fst ` set (rooms (deleteOne rid st)) = fst ` set (rooms st) - {rid}"
  by (auto simp: deleteOne_def AList.delete_eq)

lemma rooms_files: "rooms (st\<lparr>files := fs\<rparr>) = rooms st"
  by simp

lemma rooms_roomAuditLog: "roomAuditLog e rid usr ev st = Some st' \<Longrightarrow> rooms st' = rooms st"
  by (auto simp: roomAuditLog_def split: if_splits)

lemmas ids_simps = ids_updateOne rooms_audited rooms_detached rooms_push_notification

lemma ids_versions_new:
  "fst ` set (rooms (snd (versions_new e st u rid sid body))) \<subseteq> fst ` set (rooms st)"
  by (simp add: versions_new_def Let_def ids_simps split: gate.splits option.splits)

lemma ids_associate_data:
  "fst ` set (rooms (snd (associate_data e st u rid sid vp body))) \<subseteq> fst ` set (rooms st)"
  by (simp add: associate_data_def Let_def ids_simps split: gate.splits option.splits)

lemma ids_set_public_version:
  "fst ` set (rooms (snd (set_public_version e st u rid sid body))) \<subseteq> fst ` set (rooms st)"
  by (simp add: set_public_version_def Let_def ids_simps split: gate.splits option.splits)

lemma ids_set_tags:
  "fst ` set (rooms (snd (set_tags e st u rid body))) \<subseteq> fst ` set (rooms st)"
  by (simp add: set_tags_def Let_def ids_simps split: gate.splits option.splits)

lemma ids_set_content_flags:
  "fst ` set (rooms (snd (set_content_flags e st u rid body))) \<subseteq> fst ` set (rooms st)"
  by (auto simp: set_content_flags_def Let_def ids_simps dest!: rooms_roomAuditLog
      split: gate.splits option.splits)

lemma ids_set_description:
  "fst ` set (rooms (snd (set_description e st u rid body))) \<subseteq> fst ` set (rooms st)"
  by (simp add: set_description_def Let_def ids_simps split: gate.splits option.splits)

lemma ids_set_cover_image:
  "fst ` set (rooms (snd (set_cover_image e st u rid image_id))) \<subseteq> fst ` set (rooms st)"
  by (simp add: set_cover_image_def Let_def ids_simps split: gate.splits option.splits)

lemma ids_roles_new:
  "fst ` set (rooms (snd (roles_new e st u rid body))) \<subseteq> fst ` set (rooms st)"
  by (simp add: roles_new_def Let_def ids_simps split: gate.splits option.splits)

lemma ids_roles_update:
  "fst ` set (rooms (snd (roles_update e st u rid role_name body))) \<subseteq> fst ` set (rooms st)"
  by (simp add: roles_update_def Let_def ids_simps split: gate.splits option.splits sum.splits)

lemma ids_roles_delete:
  "fst ` set (rooms (snd (roles_delete e st u rid role_name))) \<subseteq> fst ` set (rooms st)"
  by (simp add: roles_delete_def Let_def ids_simps split: gate.splits option.splits)

lemma ids_set_role:
  "fst ` set (rooms (snd (set_role e st u rid target role_name))) \<subseteq> fst ` set (rooms st)"
  by (simp add: set_role_def Let_def ids_simps split: gate.splits option.splits)

lemma ids_report_room:
  "fst ` set (rooms (snd (report_room e st u rid body))) \<subseteq> fst ` set (rooms st)"
  by (simp add: report_room_def Let_def ids_simps split: option.splits)

lemma ids_moderation_suspend:
  "fst ` set (rooms (snd (moderation_suspend e st u rid body))) \<subseteq> fst ` set (rooms st)"
  by (simp add: moderation_suspend_def Let_def ids_simps split: option.splits)

lemma ids_moderation_terminate:
  "fst ` set (rooms (snd (moderation_terminate e st u rid body permanent))) \<subseteq> fst ` set (rooms st)"
  by (auto simp: moderation_terminate_def Let_def ids_simps ids_deleteOne split: option.splits)

lemma ids_subroom_create:
  "fst ` set (rooms (snd (subroom_create e st u rid n body))) \<subseteq> fst ` set (rooms st)"
  by (simp add: subroom_create_def Let_def ids_simps split: gate.splits option.splits)

lemma ids_subroom_delete:
  "fst ` set (rooms (snd (subroom_delete e st u rid n))) \<subseteq> fst ` set (rooms st)"
  by (simp add: subroom_delete_def Let_def ids_simps split: gate.splits option.splits)

lemma ids_set_max_players:
  "fst ` set (rooms (snd (set_max_players e st u rid n count))) \<subseteq> fst ` set (rooms st)"
  by (simp add: set_max_players_def Let_def ids_simps split: gate.splits option.splits)

lemma ids_set_home_subroom:
  "fst ` set (rooms (snd (set_home_subroom e st u rid n))) \<subseteq> fst ` set (rooms st)"
  by (simp add: set_home_subroom_def Let_def ids_simps split: gate.splits option.splits)

lemma ids_new_room:
  "fst ` set (rooms (snd (new_room e st u body))) \<subseteq> insert (uuid e) (fst ` set (rooms st))"
  by (auto simp: new_room_def Let_def ids_simps insertOne_def new_room_document_def
      split: option.splits if_splits)

lemma ids_handle:
  "fst ` set (rooms (snd (handle e st rq)))
     \<subseteq> (case rq of New_room u body \<Rightarrow> insert (uuid e) (fst ` set (rooms st))
                   | _ \<Rightarrow> fst ` set (rooms st))"
  by (cases rq)
     (simp_all add: ids_new_room ids_versions_new ids_associate_data ids_set_public_version
        ids_set_tags ids_set_content_flags ids_moderation_suspend ids_moderation_terminate
        ids_set_description ids_report_room ids_roles_new ids_roles_update ids_roles_delete
        ids_set_role ids_set_cover_image ids_subroom_create ids_subroom_delete
        ids_set_max_players ids_set_home_subroom)

lemma absent_handle:
  assumes "rid \<notin> fst ` set (rooms st)" and "\<not> creates rid e rq"
  shows "rid \<notin> fst ` set (rooms (snd (handle e st rq)))"
  using assms ids_handle [of e st rq] by (cases rq) auto

lemma absent_run:
  "rid \<notin> fst ` set (rooms st) \<Longrightarrow> list_all (\<lambda>(e, rq). \<not> creates rid e rq) reqs \<Longrightarrow>
   rid \<notin> fst ` set (rooms (run st reqs))"
proof (induction reqs arbitrary: st)
  case Nil
  then show ?case by simp
next
  case (Cons step reqs)
  obtain e rq where step: "step = (e, rq)"
    by (cases step)
  with Cons.prems have "rid \<notin> fst ` set (rooms (snd (handle e st rq)))"
    by (simp add: absent_handle)
  with Cons.prems step show ?case
    by (simp add: Cons.IH)
qed

lemma info_absent:
  "rid \<notin> fst ` set (rooms st) \<Longrightarrow> info e st ou rid = message_only 404 ''room_not_found''"
  by (simp add: info_def findOne_def map_of_eq_None_iff [THEN iffD2])

text \<open>
  C7. On an existing room, a moderation-terminate request with \<open>permanent=true\<close> (and a
  note that is absent or a string) is answered with success, deletes the room document and
  records the event \<open>room_terminated_for_illegal_content\<close> (when the audit insertion does not
  fail); from then on fetching the room's information answers 404 \<open>room_not_found\<close>, for
  every caller and after any further requests that do not create a room under the same id.
\<close>

theorem permanent_termination_deletes_room:
  assumes "findOne st rid = Some room"
    and "body \<noteq> JNull"
    and "\<not> (truthy (js_prop body ''note'') \<and> typeof (js_prop body ''note'') \<noteq> T_string)"
    and "equals_true permanent"
  shows "\<exists>st'.
           moderation_terminate e st u rid body permanent
             = (success ''Room wiped entirely from database.'', st')
         \<and> findOne st' rid = None
         \<and> (\<not> audit_insert_fails e \<longrightarrow>
              room_audit st' = room_audit st @
                [\<lparr>room_id = rid, user_id = uid u, event_time = now e,
                  event_data =
                    \<lparr>event_type = RoomTerminatedByDeveloperForIllegalContent,
                     previous_value = A_null, new_value = A_null,
                     event_note = note_value (js_prop body ''note'')\<rparr>\<rparr>])
         \<and> (\<forall>reqs e' ou.
              list_all (\<lambda>(e, rq). \<not> creates rid e rq) reqs \<longrightarrow>
              info e' (run st' reqs) ou rid = message_only 404 ''room_not_found'')"
proof -
  define st' where "st' =
    roomAuditLog_detached e rid (uid u)
      \<lparr>event_type = RoomTerminatedByDeveloperForIllegalContent,
       previous_value = A_null, new_value = A_null,
       event_note = note_value (js_prop body ''note'')\<rparr>
      (deleteOne rid st)"
  have call: "moderation_terminate e st u rid body permanent
      = (success ''Room wiped entirely from database.'', st')"
    using assms by (auto simp: moderation_terminate_def Let_def st'_def)
  have absent: "rid \<notin> fst ` set (rooms st')"
    by (simp add: st'_def rooms_detached ids_deleteOne)
  then have gone: "findOne st' rid = None"
    by (simp add: findOne_def map_of_eq_None_iff)
  have logged: "room_audit st' = room_audit st @
      [\<lparr>room_id = rid, user_id = uid u, event_time = now e,
        event_data =
          \<lparr>event_type = RoomTerminatedByDeveloperForIllegalContent,
           previous_value = A_null, new_value = A_null,
           event_note = note_value (js_prop body ''note'')\<rparr>\<rparr>]"
    if "\<not> audit_insert_fails e"
    using that by (simp add: st'_def roomAuditLog_detached_def roomAuditLog_def deleteOne_def)
  have later: "info e' (run st' reqs) ou rid = message_only 404 ''room_not_found''"
    if "list_all (\<lambda>(e, rq). \<not> creates rid e rq) reqs" for reqs e' ou
    using absent that by (intro info_absent absent_run)
  from call gone logged later show ?thesis
    by blast
qed

theorem permanent_termination_deletes_room_witness:
  "\<exists>st'.
     moderation_terminate env0 test_store developer_D ''R1''
         (JObj [(''note'', JStr ''unlawful content'')]) (Some (Q_string ''true''))
       = (success ''Room wiped entirely from database.'', st')
   \<and> findOne st' ''R1'' = None
   \<and> room_audit st' = room_audit test_store @
        [\<lparr>room_id = ''R1'', user_id = ''D'', event_time = 1000,
          event_data =
            \<lparr>event_type = RoomTerminatedByDeveloperForIllegalContent,
             previous_value = A_null, new_value = A_null,
             event_note = A_json (JStr ''unlawful content'')\<rparr>\<rparr>]
   \<and> info env0 st' (Some user_A) ''R1'' = message_only 404 ''room_not_found''
   \<and> info env0
         (run st'
            [(env0, Set_description user_A ''R1'' (JObj [(''description'', JStr ''back'')])),
             (env0\<lparr>uuid := ''R2''\<rparr>, New_room user_A (JObj [(''name'', JStr ''Test'')]))])
         None ''R1''
       = message_only 404 ''room_not_found''"
proof -
  have "case findOne test_store ''R1'' of Some r \<Rightarrow> True | None \<Rightarrow> False"
    by code_simp
  then obtain r where found: "findOne test_store ''R1'' = Some r"
    by (auto split: option.splits)
  have body: "JObj [(''note'', JStr ''unlawful content'')] \<noteq> JNull"
      "\<not> (truthy (js_prop (JObj [(''note'', JStr ''unlawful content'')]) ''note'')
          \<and> typeof (js_prop (JObj [(''note'', JStr ''unlawful content'')]) ''note'') \<noteq> T_string)"
    by simp_all
  have permanent: "equals_true (Some (Q_string ''true''))"
    by (simp add: equals_true_def)
  have quiet: "\<not> audit_insert_fails env0" "now env0 = 1000" "uid developer_D = ''D''"
    by (simp_all add: env0_def developer_D_def)
  have none: "list_all (\<lambda>(e, rq). \<not> creates ''R1'' e rq) []"
    by simp
  have other: "list_all (\<lambda>(e, rq). \<not> creates ''R1'' e rq)
      [(env0, Set_description user_A ''R1'' (JObj [(''description'', JStr ''back'')])),
       (env0\<lparr>uuid := ''R2''\<rparr>, New_room user_A (JObj [(''name'', JStr ''Test'')]))]"
    by simp
  from permanent_termination_deletes_room [OF found body permanent,
      where e = env0 and u = developer_D]
  obtain st' where st':
      "moderation_terminate env0 test_store developer_D ''R1''
         (JObj [(''note'', JStr ''unlawful content'')]) (Some (Q_string ''true''))
       = (success ''Room wiped entirely from database.'', st')"
      "findOne st' ''R1'' = None"
      "\<not> audit_insert_fails env0 \<longrightarrow>
       room_audit st' = room_audit test_store @
         [\<lparr>room_id = ''R1'', user_id = uid developer_D, event_time = now env0,
           event_data =
             \<lparr>event_type = RoomTerminatedByDeveloperForIllegalContent,
              previous_value = A_null, new_value = A_null,
              event_note = note_value (js_prop (JObj [(''note'', JStr ''unlawful content'')]) ''note'')\<rparr>\<rparr>]"
      "\<And>reqs e' ou. list_all (\<lambda>(e, rq). \<not> creates ''R1'' e rq) reqs \<Longrightarrow>
         info e' (run st' reqs) ou ''R1'' = message_only 404 ''room_not_found''"
    by blast
  from st'(3) quiet have audit: "room_audit st' = room_audit test_store @
        [\<lparr>room_id = ''R1'', user_id = ''D'', event_time = 1000,
          event_data =
            \<lparr>event_type = RoomTerminatedByDeveloperForIllegalContent,
             previous_value = A_null, new_value = A_null,
             event_note = A_json (JStr ''unlawful content'')\<rparr>\<rparr>]"
    by simp
  from st'(4) [OF none, of env0 "Some user_A"]
  have now: "info env0 st' (Some user_A) ''R1'' = message_only 404 ''room_not_found''"
    by simp
  note afterwards = st'(4) [OF other, of env0 None]
  from st'(1,2) audit now afterwards show ?thesis
    by blast
qed

subsection \<open>Decimal numerals\<close>

lemma digit_table:
  "list_all (\<lambda>d. digit_value (digit_char d) = Some d \<and> \<not> is_space (digit_char d)
              \<and> digit_char d \<notin> set ''-+xX'') [0..<10]"
  by code_simp

lemma digit_facts:
  assumes "d < 10"
  shows "digit_value (digit_char d) = Some d" "\<not> is_space (digit_char d)"
    "digit_char d \<noteq> CHR ''-''" "digit_char d \<noteq> CHR ''+''"
    "digit_char d \<noteq> CHR ''x''" "digit_char d \<noteq> CHR ''X''"
proof -
  from assms have "d \<in> set [0..<10]" by simp
  with digit_table have "digit_value (digit_char d) = Some d \<and> \<not> is_space (digit_char d)
      \<and> digit_char d \<notin> set ''-+xX''"
    unfolding list_all_iff by blast
  then show "digit_value (digit_char d) = Some d" "\<not> is_space (digit_char d)"
    "digit_char d \<noteq> CHR ''-''" "digit_char d \<noteq> CHR ''+''"
    "digit_char d \<noteq> CHR ''x''" "digit_char d \<noteq> CHR ''X''"
    by auto
qed

lemma digits_value_snoc:
  "digits_value r acc (cs @ [c])
     = digits_value r acc cs * r + (case digit_value c of None \<Rightarrow> 0 | Some d \<Rightarrow> d)"
  by (induction cs arbitrary: acc) simp_all

lemma nat_toString_digits:
  "nat_toString n \<noteq> [] \<and> (\<forall>c \<in> set (nat_toString n). \<exists>d < 10. c = digit_char d)
   \<and> digits_value 10 0 (nat_toString n) = n"
proof (induction n rule: less_induct)
  case (less n)
  show ?case
  proof (cases "n < 10")
    case True
    then show ?thesis
      by (subst (1 2 3) nat_toString.simps) (auto simp: digit_facts)
  next
    case False
    then have "n div 10 < n" by simp
    from less.IH [OF this] False show ?thesis
      by (subst (1 2 3) nat_toString.simps)
         (auto simp: digits_value_snoc digit_facts intro: exI [of _ "n mod 10"])
  qed
qed

lemma parseInt_nat_toString: "parseInt (nat_toString n) = Some (int n)"
proof -
  let ?s = "nat_toString n"
  from nat_toString_digits [of n]
  have ne: "?s \<noteq> []" and ds: "\<forall>c \<in> set ?s. \<exists>d < 10. c = digit_char d"
    and val: "digits_value 10 0 ?s = n"
    by auto
  from ne obtain c cs where s: "?s = c # cs"
    by (cases ?s) auto
  with ds obtain d where d: "d < 10" "c = digit_char d"
    by auto
  have all_digits: "takeWhile (is_digit 10) ?s = ?s"
    using ds by (auto simp: takeWhile_eq_all_conv is_digit_def digit_facts)
  have no_x: "take 2 ?s \<noteq> ''0x''" "take 2 ?s \<noteq> ''0X''"
  proof -
    have "CHR ''x'' \<notin> set ?s" "CHR ''X'' \<notin> set ?s"
      using ds digit_facts(5,6) by metis+
    then have "CHR ''x'' \<notin> set (take 2 ?s)" "CHR ''X'' \<notin> set (take 2 ?s)"
      by (auto dest: in_set_takeD)
    then show "take 2 ?s \<noteq> ''0x''" "take 2 ?s \<noteq> ''0X''"
      by (metis list.set_intros(1,2))+
  qed
  have "parse_unsigned ?s = Some n"
    using no_x ne by (simp add: parse_unsigned_def parse_digits_def all_digits val)
  moreover have "dropWhile is_space ?s = ?s"
    using s d by (simp add: digit_facts)
  ultimately show ?thesis
    using s d by (simp add: parseInt_def digit_facts)
qed

subsection \<open>Version creation\<close>






subsection \<open>The public version pointer\<close>

lemma version_at_string_None:
  assumes "parseInt s = None \<or> (\<exists>i. parseInt s = Some i \<and> i < 0)"
  shows "version_at vs (Id_string s) = None"
proof -
  have "nat_toString i \<noteq> s" for i
  proof
    assume "nat_toString i = s"
    then have "parseInt s = Some (int i)"
      using parseInt_nat_toString [of i] by simp
    with assms show False by auto
  qed
  then have "find (\<lambda>i. nat_toString i = s) [0..<length vs] = None"
    by (simp add: find_None_iff)
  then show ?thesis by simp
qed

lemma subroom_set_public:
  assumes "map_of (subrooms r) sid = Some sr"
  shows "map_of (subrooms (update_subroom sid (\<lambda>s. s\<lparr>publicVersionId := v\<rparr>) r)) sid
         = Some (sr\<lparr>publicVersionId := v\<rparr>)"
  using assms by (simp add: update_subroom_def AList.update_conv')

text \<open>
  C10. Take a set-public-version request that is past the permission check, names an
  existing subroom, and carries as \<open>id\<close> a string that \<open>parseInt\<close> reads as \<open>NaN\<close> or as a
  negative number. The guard \<open>versions.length <= parseInt(id)\<close> does not fire, the string is
  stored as the subroom's \<open>publicVersionId\<close>, and the answer is success (500 when the audit
  insertion that follows the write fails). The stored value selects no version: the version
  list, which the request leaves as it was, has no element under it.
\<close>

theorem public_version_accepts_unparsable_id:
  assumes "requiresRoomPermission ''setPublicVersion'' e st u rid = Next c"
    and "body \<noteq> JNull"
    and "js_prop body ''id'' = Some (JStr s)"
    and "subroom_id \<in> set (map fst (subrooms (req_room c)))"
    and "parseInt s = None \<or> (\<exists>i. parseInt s = Some i \<and> i < 0)"
  shows "\<exists>room' sr'.
           \<not> length_le_parsed (length (versions_of (req_room c) subroom_id)) (parseInt s)
         \<and> fst (set_public_version e st u rid subroom_id body)
             = (if audit_insert_fails e then set_public_version_error
                else success ''Operation successful'')
         \<and> findOne (snd (set_public_version e st u rid subroom_id body)) rid = Some room'
         \<and> map_of (subrooms room') subroom_id = Some sr'
         \<and> publicVersionId sr' = Id_string s
         \<and> versions sr' = versions_of (req_room c) subroom_id
         \<and> version_at (versions sr') (publicVersionId sr') = None"
proof -
  let ?room = "req_room c"
  let ?set = "update_subroom subroom_id (\<lambda>sr. sr\<lparr>publicVersionId := Id_string s\<rparr>)"
  from assms(4) obtain sr where sr: "map_of (subrooms ?room) subroom_id = Some sr"
    by (rule subroom_found)
  have found: "findOne st rid = Some ?room"
    using assms(1) by (rule gate_room)
  have guard: "\<not> length_le_parsed (length (versions_of ?room subroom_id)) (parseInt s)"
    using assms(5) by (auto simp: length_le_parsed_def)
  define result where "result = set_public_version e st u rid subroom_id body"
  have call: "result =
      audited e rid (uid u)
        \<lparr>event_type = PublicVersionUpdate,
         previous_value = A_version_id (publicVersionId sr),
         new_value = A_string s, event_note = A_undefined\<rparr>
        (success ''Operation successful'') set_public_version_error
        (updateOne rid ?set st)"
    using assms(1-4) found guard sr by (simp add: result_def set_public_version_def)
  have response: "fst result
      = (if audit_insert_fails e then set_public_version_error
         else success ''Operation successful'')"
    by (simp add: call audited_def roomAuditLog_def)
  have stored: "findOne (snd result) rid = Some (?set ?room)"
    by (simp add: call findOne_audited findOne_updateOne found)
  have sub: "map_of (subrooms (?set ?room)) subroom_id = Some (sr\<lparr>publicVersionId := Id_string s\<rparr>)"
    using sr by (rule subroom_set_public)
  have same: "versions (sr\<lparr>publicVersionId := Id_string s\<rparr>) = versions_of ?room subroom_id"
    using sr by (simp add: versions_of_def)
  have none: "version_at (versions (sr\<lparr>publicVersionId := Id_string s\<rparr>))
      (publicVersionId (sr\<lparr>publicVersionId := Id_string s\<rparr>)) = None"
    using version_at_string_None [OF assms(5)] by (simp del: version_at.simps)
  show ?thesis
    unfolding result_def [symmetric]
  proof (intro exI conjI)
    show "\<not> length_le_parsed (length (versions_of ?room subroom_id)) (parseInt s)"
      by (rule guard)
    show "fst result
        = (if audit_insert_fails e then set_public_version_error
           else success ''Operation successful'')"
      by (rule response)
    show "findOne (snd result) rid = Some (?set ?room)" by (rule stored)
    show "map_of (subrooms (?set ?room)) subroom_id
        = Some (sr\<lparr>publicVersionId := Id_string s\<rparr>)"
      by (rule sub)
    show "publicVersionId (sr\<lparr>publicVersionId := Id_string s\<rparr>) = Id_string s" by simp
    show "versions (sr\<lparr>publicVersionId := Id_string s\<rparr>) = versions_of ?room subroom_id"
      by (rule same)
    show "version_at (versions (sr\<lparr>publicVersionId := Id_string s\<rparr>))
        (publicVersionId (sr\<lparr>publicVersionId := Id_string s\<rparr>)) = None"
      by (rule none)
  qed
qed

theorem public_version_accepts_unparsable_id_witness:
  "\<exists>room' sr' room'' sr''.
     parseInt ''latest'' = None
   \<and> fst (set_public_version env0 test_store user_A ''R1'' ''home'' (JObj [(''id'', JStr ''latest'')]))
       = success ''Operation successful''
   \<and> findOne
         (snd (set_public_version env0 test_store user_A ''R1'' ''home''
                 (JObj [(''id'', JStr ''latest'')]))) ''R1''
       = Some room'
   \<and> map_of (subrooms room') ''home'' = Some sr'
   \<and> publicVersionId sr' = Id_string ''latest''
   \<and> version_at (versions sr') (publicVersionId sr') = None
   \<and> parseInt ''-1'' = Some (- 1)
   \<and> fst (set_public_version env_audit_down test_store user_A ''R1'' ''home''
             (JObj [(''id'', JStr ''-1'')]))
       = set_public_version_error
   \<and> findOne
         (snd (set_public_version env_audit_down test_store user_A ''R1'' ''home''
                 (JObj [(''id'', JStr ''-1'')]))) ''R1''
       = Some room''
   \<and> map_of (subrooms room'') ''home'' = Some sr''
   \<and> publicVersionId sr'' = Id_string ''-1''
   \<and> version_at (versions sr'') (publicVersionId sr'') = None"
proof -
  have "case requiresRoomPermission ''setPublicVersion'' env0 test_store user_A ''R1'' of
          Next c \<Rightarrow> ''home'' \<in> set (map fst (subrooms (req_room c)))
        | Stop r \<Rightarrow> False"
    by code_simp
  then obtain c where gate:
      "requiresRoomPermission ''setPublicVersion'' env0 test_store user_A ''R1'' = Next c"
      and sub: "''home'' \<in> set (map fst (subrooms (req_room c)))"
    by (auto split: gate.splits)
  have "case requiresRoomPermission ''setPublicVersion'' env_audit_down test_store user_A ''R1'' of
          Next c \<Rightarrow> ''home'' \<in> set (map fst (subrooms (req_room c)))
        | Stop r \<Rightarrow> False"
    by code_simp
  then obtain d where gate_down:
      "requiresRoomPermission ''setPublicVersion'' env_audit_down test_store user_A ''R1'' = Next d"
      and sub_down: "''home'' \<in> set (map fst (subrooms (req_room d)))"
    by (auto split: gate.splits)
  have latest: "parseInt ''latest'' = None"
    by code_simp
  have minus: "parseInt ''-1'' = Some (- 1)"
    by code_simp
  have env: "\<not> audit_insert_fails env0" "audit_insert_fails env_audit_down"
    by (simp_all add: env0_def env_audit_down_def)
  have bodies: "JObj [(''id'', JStr ''latest'')] \<noteq> JNull"
      "js_prop (JObj [(''id'', JStr ''latest'')]) ''id'' = Some (JStr ''latest'')"
      "JObj [(''id'', JStr ''-1'')] \<noteq> JNull"
      "js_prop (JObj [(''id'', JStr ''-1'')]) ''id'' = Some (JStr ''-1'')"
    by simp_all
  from public_version_accepts_unparsable_id [OF gate bodies(1,2) sub] latest env
  obtain room' sr' where up:
      "fst (set_public_version env0 test_store user_A ''R1'' ''home'' (JObj [(''id'', JStr ''latest'')]))
         = success ''Operation successful''"
      "findOne
         (snd (set_public_version env0 test_store user_A ''R1'' ''home''
                 (JObj [(''id'', JStr ''latest'')]))) ''R1''
         = Some room'"
      "map_of (subrooms room') ''home'' = Some sr'"
      "publicVersionId sr' = Id_string ''latest''"
      "version_at (versions sr') (publicVersionId sr') = None"
    by auto
  from public_version_accepts_unparsable_id [OF gate_down bodies(3,4) sub_down] minus env
  obtain room'' sr'' where down:
      "fst (set_public_version env_audit_down test_store user_A ''R1'' ''home''
              (JObj [(''id'', JStr ''-1'')]))
         = set_public_version_error"
      "findOne
         (snd (set_public_version env_audit_down test_store user_A ''R1'' ''home''
                 (JObj [(''id'', JStr ''-1'')]))) ''R1''
         = Some room''"
      "map_of (subrooms room'') ''home'' = Some sr''"
      "publicVersionId sr'' = Id_string ''-1''"
      "version_at (versions sr'') (publicVersionId sr'') = None"
    by auto
  from up down latest minus show ?thesis
    by blast
qed

subsection \<open>Audit records\<close>

lemma holds_env [simp]: "holds (e\<lparr>audit_insert_fails := b\<rparr>) obj k = holds e obj k"
  by (cases obj) simp_all

lemma gate_env [simp]:
  "requiresRoomPermission p (e\<lparr>audit_insert_fails := b\<rparr>) st u rid
     = requiresRoomPermission p e st u rid"
  by (simp add: requiresRoomPermission_def Let_def split: option.splits)

lemma update_loop_env [simp]:
  "update_loop (e\<lparr>audit_insert_fails := b\<rparr>) u c target entries = update_loop e u c target entries"
  by (induction entries arbitrary: target) (auto split: option.splits)

lemma Buffer_env [simp]:
  "Buffer_from_base64 (e\<lparr>audit_insert_fails := b\<rparr>) body = Buffer_from_base64 e body"
  by (simp add: Buffer_from_base64_def)

lemma gate_status:
  "requiresRoomPermission p e st u rid = Stop r \<Longrightarrow> status_of r \<noteq> Some 200"
  by (auto simp: requiresRoomPermission_def pass_def Let_def code_message_def
      split: option.splits if_splits)

lemma audited_down:
  "audited (e\<lparr>audit_insert_fails := True\<rparr>) rid usr ev ok err st = (err, st)"
  by (simp add: audited_def roomAuditLog_def)

lemma audited_up:
  "audited (e\<lparr>audit_insert_fails := False\<rparr>) rid usr ev ok err st
     = (ok, st\<lparr>room_audit := room_audit st @
          [\<lparr>room_id = rid, user_id = usr, event_time = now e, event_data = ev\<rparr>]\<rparr>)"
  by (simp add: audited_def roomAuditLog_def)

lemma room_audit_updateOne [simp]: "room_audit (updateOne rid f st) = room_audit st"
  by (simp add: updateOne_def split: option.splits)

lemma update_loop_status: "update_loop e u c target entries = Inl r \<Longrightarrow> status_of r \<noteq> Some 200"
  by (induction entries arbitrary: target)
     (auto simp: code_message_def roles_update_error_def access_denied_permissions_def
        pollution_detected_def not_boolean_def split: option.splits if_splits)

lemmas answers = code_message_def success_def roles_new_error_def roles_update_error_def
  access_denied_permissions_def pollution_detected_def not_boolean_def roles_delete_error_def
  set_role_error_def new_room_error_def versions_new_error_def associate_data_error_def
  already_associated_def set_public_version_error_def generic_error_def not_a_string_array_def
  not_a_dictionary_def moderation_error_def invalid_note_def room_not_located_def
  report_error_def subroom_error_def

lemma awaited_new_room:
  assumes "status_of (fst (new_room (e\<lparr>audit_insert_fails := False\<rparr>) st u body)) = Some 200"
  shows "status_of (fst (new_room (e\<lparr>audit_insert_fails := True\<rparr>) st u body)) = Some 500
    \<and> room_audit (snd (new_room (e\<lparr>audit_insert_fails := True\<rparr>) st u body)) = room_audit st
    \<and> rooms (snd (new_room (e\<lparr>audit_insert_fails := True\<rparr>) st u body))
        = rooms (snd (new_room (e\<lparr>audit_insert_fails := False\<rparr>) st u body))"
  using assms
  by (auto simp: new_room_def Let_def audited_down audited_up answers
        insertOne_def new_room_document_def
      split: if_splits option.splits)

lemma awaited_versions_new:
  assumes "status_of (fst (versions_new (e\<lparr>audit_insert_fails := False\<rparr>) st u rid sid body)) = Some 200"
  shows "status_of (fst (versions_new (e\<lparr>audit_insert_fails := True\<rparr>) st u rid sid body)) = Some 500
    \<and> room_audit (snd (versions_new (e\<lparr>audit_insert_fails := True\<rparr>) st u rid sid body)) = room_audit st
    \<and> rooms (snd (versions_new (e\<lparr>audit_insert_fails := True\<rparr>) st u rid sid body))
        = rooms (snd (versions_new (e\<lparr>audit_insert_fails := False\<rparr>) st u rid sid body))"
  using assms
  by (auto simp: versions_new_def Let_def audited_down audited_up answers
      split: if_splits option.splits gate.splits dest: gate_status)

lemma awaited_set_public_version:
  assumes "status_of (fst (set_public_version (e\<lparr>audit_insert_fails := False\<rparr>) st u rid sid body)) = Some 200"
  shows "status_of (fst (set_public_version (e\<lparr>audit_insert_fails := True\<rparr>) st u rid sid body)) = Some 500
    \<and> room_audit (snd (set_public_version (e\<lparr>audit_insert_fails := True\<rparr>) st u rid sid body)) = room_audit st
    \<and> rooms (snd (set_public_version (e\<lparr>audit_insert_fails := True\<rparr>) st u rid sid body))
        = rooms (snd (set_public_version (e\<lparr>audit_insert_fails := False\<rparr>) st u rid sid body))"
  using assms
  by (auto simp: set_public_version_def Let_def audited_down audited_up answers
      split: if_splits option.splits gate.splits dest: gate_status)

lemma awaited_set_content_flags:
  assumes "status_of (fst (set_content_flags (e\<lparr>audit_insert_fails := False\<rparr>) st u rid body)) = Some 200"
  shows "status_of (fst (set_content_flags (e\<lparr>audit_insert_fails := True\<rparr>) st u rid body)) = Some 500
    \<and> snd (set_content_flags (e\<lparr>audit_insert_fails := True\<rparr>) st u rid body) = st"
  using assms
  by (auto simp: set_content_flags_def Let_def roomAuditLog_def answers
      split: if_splits option.splits gate.splits dest: gate_status)

lemma awaited_set_description:
  assumes "status_of (fst (set_description (e\<lparr>audit_insert_fails := False\<rparr>) st u rid body)) = Some 200"
  shows "status_of (fst (set_description (e\<lparr>audit_insert_fails := True\<rparr>) st u rid body)) = Some 500
    \<and> room_audit (snd (set_description (e\<lparr>audit_insert_fails := True\<rparr>) st u rid body)) = room_audit st
    \<and> rooms (snd (set_description (e\<lparr>audit_insert_fails := True\<rparr>) st u rid body))
        = rooms (snd (set_description (e\<lparr>audit_insert_fails := False\<rparr>) st u rid body))"
  using assms
  by (auto simp: set_description_def Let_def audited_down audited_up answers
      split: if_splits option.splits gate.splits dest: gate_status)

lemma awaited_roles_new:
  assumes "status_of (fst (roles_new (e\<lparr>audit_insert_fails := False\<rparr>) st u rid body)) = Some 200"
  shows "status_of (fst (roles_new (e\<lparr>audit_insert_fails := True\<rparr>) st u rid body)) = Some 500
    \<and> room_audit (snd (roles_new (e\<lparr>audit_insert_fails := True\<rparr>) st u rid body)) = room_audit st
    \<and> rooms (snd (roles_new (e\<lparr>audit_insert_fails := True\<rparr>) st u rid body))
        = rooms (snd (roles_new (e\<lparr>audit_insert_fails := False\<rparr>) st u rid body))"
  using assms
  by (auto simp: roles_new_def Let_def audited_down audited_up answers
      split: if_splits option.splits gate.splits dest: gate_status)

lemma awaited_roles_update:
  assumes "status_of (fst (roles_update (e\<lparr>audit_insert_fails := False\<rparr>) st u rid role_name body)) = Some 200"
  shows "status_of (fst (roles_update (e\<lparr>audit_insert_fails := True\<rparr>) st u rid role_name body)) = Some 500
    \<and> room_audit (snd (roles_update (e\<lparr>audit_insert_fails := True\<rparr>) st u rid role_name body)) = room_audit st
    \<and> rooms (snd (roles_update (e\<lparr>audit_insert_fails := True\<rparr>) st u rid role_name body))
        = rooms (snd (roles_update (e\<lparr>audit_insert_fails := False\<rparr>) st u rid role_name body))"
  using assms
  by (auto simp: roles_update_def Let_def audited_down audited_up answers
      split: if_splits option.splits gate.splits sum.splits
      dest: gate_status update_loop_status)

lemma awaited_roles_delete:
  assumes "status_of (fst (roles_delete (e\<lparr>audit_insert_fails := False\<rparr>) st u rid role_name)) = Some 200"
  shows "status_of (fst (roles_delete (e\<lparr>audit_insert_fails := True\<rparr>) st u rid role_name)) = Some 500
    \<and> room_audit (snd (roles_delete (e\<lparr>audit_insert_fails := True\<rparr>) st u rid role_name)) = room_audit st
    \<and> rooms (snd (roles_delete (e\<lparr>audit_insert_fails := True\<rparr>) st u rid role_name))
        = rooms (snd (roles_delete (e\<lparr>audit_insert_fails := False\<rparr>) st u rid role_name))"
  using assms
  by (auto simp: roles_delete_def Let_def audited_down audited_up answers
      split: if_splits option.splits gate.splits dest: gate_status)

lemma awaited_set_role:
  assumes "status_of (fst (set_role (e\<lparr>audit_insert_fails := False\<rparr>) st u rid target role_name)) = Some 200"
  shows "status_of (fst (set_role (e\<lparr>audit_insert_fails := True\<rparr>) st u rid target role_name)) = Some 500
    \<and> room_audit (snd (set_role (e\<lparr>audit_insert_fails := True\<rparr>) st u rid target role_name)) = room_audit st
    \<and> rooms (snd (set_role (e\<lparr>audit_insert_fails := True\<rparr>) st u rid target role_name))
        = rooms (snd (set_role (e\<lparr>audit_insert_fails := False\<rparr>) st u rid target role_name))"
  using assms
  by (auto simp: set_role_def Let_def audited_down audited_up answers
      split: if_splits option.splits gate.splits dest: gate_status)

lemma awaited_subroom_create:
  assumes "status_of (fst (subroom_create (e\<lparr>audit_insert_fails := False\<rparr>) st u rid n body)) = Some 200"
  shows "status_of (fst (subroom_create (e\<lparr>audit_insert_fails := True\<rparr>) st u rid n body)) = Some 500
    \<and> room_audit (snd (subroom_create (e\<lparr>audit_insert_fails := True\<rparr>) st u rid n body)) = room_audit st
    \<and> rooms (snd (subroom_create (e\<lparr>audit_insert_fails := True\<rparr>) st u rid n body))
        = rooms (snd (subroom_create (e\<lparr>audit_insert_fails := False\<rparr>) st u rid n body))"
  using assms
  by (auto simp: subroom_create_def Let_def audited_down audited_up answers
      split: if_splits option.splits gate.splits dest: gate_status)

lemma awaited_subroom_delete:
  assumes "status_of (fst (subroom_delete (e\<lparr>audit_insert_fails := False\<rparr>) st u rid n)) = Some 200"
  shows "status_of (fst (subroom_delete (e\<lparr>audit_insert_fails := True\<rparr>) st u rid n)) = Some 500
    \<and> room_audit (snd (subroom_delete (e\<lparr>audit_insert_fails := True\<rparr>) st u rid n)) = room_audit st
    \<and> rooms (snd (subroom_delete (e\<lparr>audit_insert_fails := True\<rparr>) st u rid n))
        = rooms (snd (subroom_delete (e\<lparr>audit_insert_fails := False\<rparr>) st u rid n))"
  using assms
  by (auto simp: subroom_delete_def Let_def audited_down audited_up answers
      split: if_splits option.splits gate.splits dest: gate_status)

lemma awaited_set_max_players:
  assumes "status_of (fst (set_max_players (e\<lparr>audit_insert_fails := False\<rparr>) st u rid n count)) = Some 200"
  shows "status_of (fst (set_max_players (e\<lparr>audit_insert_fails := True\<rparr>) st u rid n count)) = Some 500
    \<and> room_audit (snd (set_max_players (e\<lparr>audit_insert_fails := True\<rparr>) st u rid n count)) = room_audit st
    \<and> rooms (snd (set_max_players (e\<lparr>audit_insert_fails := True\<rparr>) st u rid n count))
        = rooms (snd (set_max_players (e\<lparr>audit_insert_fails := False\<rparr>) st u rid n count))"
  using assms
  by (auto simp: set_max_players_def Let_def audited_down audited_up answers
      split: if_splits option.splits gate.splits dest: gate_status)

lemma awaited_set_home_subroom:
  assumes "status_of (fst (set_home_subroom (e\<lparr>audit_insert_fails := False\<rparr>) st u rid n)) = Some 200"
  shows "status_of (fst (set_home_subroom (e\<lparr>audit_insert_fails := True\<rparr>) st u rid n)) = Some 500
    \<and> room_audit (snd (set_home_subroom (e\<lparr>audit_insert_fails := True\<rparr>) st u rid n)) = room_audit st
    \<and> rooms (snd (set_home_subroom (e\<lparr>audit_insert_fails := True\<rparr>) st u rid n))
        = rooms (snd (set_home_subroom (e\<lparr>audit_insert_fails := False\<rparr>) st u rid n))"
  using assms
  by (auto simp: set_home_subroom_def Let_def audited_down audited_up answers
      split: if_splits option.splits gate.splits dest: gate_status)

lemma detached_moderation_suspend:
  "fst (moderation_suspend (e\<lparr>audit_insert_fails := True\<rparr>) st u rid body)
     = fst (moderation_suspend (e\<lparr>audit_insert_fails := False\<rparr>) st u rid body)
   \<and> rooms (snd (moderation_suspend (e\<lparr>audit_insert_fails := True\<rparr>) st u rid body))
     = rooms (snd (moderation_suspend (e\<lparr>audit_insert_fails := False\<rparr>) st u rid body))"
  by (simp add: moderation_suspend_def Let_def roomAuditLog_detached_def roomAuditLog_def
      push_notification_def split: option.splits)

lemma detached_moderation_terminate:
  "fst (moderation_terminate (e\<lparr>audit_insert_fails := True\<rparr>) st u rid body permanent)
     = fst (moderation_terminate (e\<lparr>audit_insert_fails := False\<rparr>) st u rid body permanent)
   \<and> rooms (snd (moderation_terminate (e\<lparr>audit_insert_fails := True\<rparr>) st u rid body permanent))
     = rooms (snd (moderation_terminate (e\<lparr>audit_insert_fails := False\<rparr>) st u rid body permanent))"
  by (simp add: moderation_terminate_def Let_def roomAuditLog_detached_def roomAuditLog_def
      push_notification_def deleteOne_def split: option.splits)

lemma unaudited_associate_data:
  "associate_data (e\<lparr>audit_insert_fails := b\<rparr>) st u rid sid vp body
     = associate_data e st u rid sid vp body"
  by (simp add: associate_data_def Let_def split: gate.splits option.splits)

lemma unaudited_set_tags:
  "set_tags (e\<lparr>audit_insert_fails := b\<rparr>) st u rid body = set_tags e st u rid body"
  by (simp add: set_tags_def Let_def split: gate.splits option.splits)

lemma unaudited_report_room:
  "report_room (e\<lparr>audit_insert_fails := b\<rparr>) st u rid body = report_room e st u rid body"
  by (simp add: report_room_def Let_def split: gate.splits option.splits)

lemma unaudited_set_cover_image:
  "set_cover_image (e\<lparr>audit_insert_fails := b\<rparr>) st u rid image_id
     = set_cover_image e st u rid image_id"
  by (simp add: set_cover_image_def Let_def split: gate.splits option.splits)

lemma room_audit_push_notification [simp]:
  "room_audit (push_notification account n st) = room_audit st"
  by (simp add: push_notification_def split: option.splits)

lemma room_audit_deleteOne [simp]: "room_audit (deleteOne rid st) = room_audit st"
  by (simp add: deleteOne_def)

lemma lost_moderation_suspend:
  "room_audit (snd (moderation_suspend (e\<lparr>audit_insert_fails := True\<rparr>) st u rid body))
     = room_audit st"
  by (simp add: moderation_suspend_def Let_def roomAuditLog_detached_def roomAuditLog_def
      split: option.splits)

lemma lost_moderation_terminate:
  "room_audit (snd (moderation_terminate (e\<lparr>audit_insert_fails := True\<rparr>) st u rid body permanent))
     = room_audit st"
  by (simp add: moderation_terminate_def Let_def roomAuditLog_detached_def roomAuditLog_def
      split: option.splits)

text \<open>
  C9. Audit-record writes should be best-effort and never fail the success response of an
  operation whose primary write succeeded. Only the two moderation requests call
  \<open>roomAuditLog\<close> without awaiting it. For a request that is answered 200 when the insertion
  of the audit record succeeds, and for the same environment with a failing insertion:
  a request that awaits the audit record is answered 500, no audit record is added, and the
  rooms are the ones the successful request leaves, so the primary write stays (the
  content-flags request writes the audit record first and then leaves the rooms as they
  were); a moderation request gets the same answer and leaves the same rooms, and its audit
  record is lost; a request that writes no audit record gives the same result.
\<close>

theorem audit_failure_and_response:
  assumes "status_of (fst (handle (e\<lparr>audit_insert_fails := False\<rparr>) st rq)) = Some 200"
  shows "case audit_call_of rq of
      Awaited \<Rightarrow>
        status_of (fst (handle (e\<lparr>audit_insert_fails := True\<rparr>) st rq)) = Some 500
        \<and> room_audit (snd (handle (e\<lparr>audit_insert_fails := True\<rparr>) st rq)) = room_audit st
        \<and> rooms (snd (handle (e\<lparr>audit_insert_fails := True\<rparr>) st rq))
            = (case rq of
                 Set_content_flags u rid body \<Rightarrow> rooms st
               | _ \<Rightarrow> rooms (snd (handle (e\<lparr>audit_insert_fails := False\<rparr>) st rq)))
    | Detached \<Rightarrow>
        fst (handle (e\<lparr>audit_insert_fails := True\<rparr>) st rq)
          = fst (handle (e\<lparr>audit_insert_fails := False\<rparr>) st rq)
        \<and> rooms (snd (handle (e\<lparr>audit_insert_fails := True\<rparr>) st rq))
            = rooms (snd (handle (e\<lparr>audit_insert_fails := False\<rparr>) st rq))
        \<and> room_audit (snd (handle (e\<lparr>audit_insert_fails := True\<rparr>) st rq)) = room_audit st
    | Unaudited \<Rightarrow>
        handle (e\<lparr>audit_insert_fails := True\<rparr>) st rq
          = handle (e\<lparr>audit_insert_fails := False\<rparr>) st rq"
proof (cases rq)
  case (New_room u body)
  then show ?thesis using assms awaited_new_room [of e st u body] by simp
next
  case (Versions_new u rid sid body)
  then show ?thesis using assms awaited_versions_new [of e st u rid sid body] by simp
next
  case (Associate_data u rid sid vid body)
  then show ?thesis by (simp add: unaudited_associate_data)
next
  case (Set_public_version u rid sid body)
  then show ?thesis using assms awaited_set_public_version [of e st u rid sid body] by simp
next
  case (Set_tags u rid body)
  then show ?thesis by (simp add: unaudited_set_tags)
next
  case (Set_content_flags u rid body)
  then show ?thesis using assms awaited_set_content_flags [of e st u rid body] by simp
next
  case (Moderation_suspend u rid body)
  then show ?thesis
    using detached_moderation_suspend [of e st u rid body]
      lost_moderation_suspend [of e st u rid body] by simp
next
  case (Moderation_terminate u rid body permanent)
  then show ?thesis
    using detached_moderation_terminate [of e st u rid body permanent]
      lost_moderation_terminate [of e st u rid body permanent] by simp
next
  case (Set_description u rid body)
  then show ?thesis using assms awaited_set_description [of e st u rid body] by simp
next
  case (Report_room u rid body)
  then show ?thesis by (simp add: unaudited_report_room)
next
  case (Roles_new u rid body)
  then show ?thesis using assms awaited_roles_new [of e st u rid body] by simp
next
  case (Roles_update u rid role_name body)
  then show ?thesis using assms awaited_roles_update [of e st u rid role_name body] by simp
next
  case (Roles_delete u rid role_name)
  then show ?thesis using assms awaited_roles_delete [of e st u rid role_name] by simp
next
  case (Set_role u rid target role_name)
  then show ?thesis using assms awaited_set_role [of e st u rid target role_name] by simp
next
  case (Set_cover_image u rid image_id)
  then show ?thesis by (simp add: unaudited_set_cover_image)
next
  case (Subroom_create u rid n body)
  then show ?thesis using assms awaited_subroom_create [of e st u rid n body] by simp
next
  case (Subroom_delete u rid n)
  then show ?thesis using assms awaited_subroom_delete [of e st u rid n] by simp
next
  case (Set_max_players u rid n count)
  then show ?thesis using assms awaited_set_max_players [of e st u rid n count] by simp
next
  case (Set_home_subroom u rid n)
  then show ?thesis using assms awaited_set_home_subroom [of e st u rid n] by simp
qed

theorem audit_failure_and_response_witness:
  "status_of (fst (handle (env0\<lparr>audit_insert_fails := False\<rparr>) test_store
      (Versions_new user_A ''R1'' ''home'' spoofed_metadata))) = Some 200
   \<and> status_of (fst (handle (env0\<lparr>audit_insert_fails := True\<rparr>) test_store
      (Versions_new user_A ''R1'' ''home'' spoofed_metadata))) = Some 500
   \<and> room_audit (snd (handle (env0\<lparr>audit_insert_fails := True\<rparr>) test_store
      (Versions_new user_A ''R1'' ''home'' spoofed_metadata))) = room_audit test_store
   \<and> rooms (snd (handle (env0\<lparr>audit_insert_fails := True\<rparr>) test_store
      (Versions_new user_A ''R1'' ''home'' spoofed_metadata)))
      = rooms (snd (handle (env0\<lparr>audit_insert_fails := False\<rparr>) test_store
          (Versions_new user_A ''R1'' ''home'' spoofed_metadata)))"
proof -
  have ok: "status_of (fst (handle (env0\<lparr>audit_insert_fails := False\<rparr>) test_store
      (Versions_new user_A ''R1'' ''home'' spoofed_metadata))) = Some 200"
    by code_simp
  from audit_failure_and_response [OF ok] ok show ?thesis
    by (simp del: handle.simps)
qed

text \<open>
  The room \<open>Test\<close> has one version in \<open>home\<close>. The owner's version creation is answered
  200 with the id \<open>1\<close> when the audit record is inserted; when the insertion fails, the
  same request is answered 500 \<open>internal_error\<close> although the version was appended.
\<close>

theorem audit_failure_fails_version_create:
  "fst (versions_new env0 test_store user_A ''R1'' ''home'' spoofed_metadata)
     = Json 200 [(''code'', JStr ''success''), (''message'', JStr ''Operation succeeded.''),
                 (''id'', JStr ''1'')]
   \<and> fst (versions_new env_audit_down test_store user_A ''R1'' ''home'' spoofed_metadata)
     = Json 500 [(''code'', JStr ''internal_error''),
         (''message'', JStr ''An internal server error occured, and the operation failed. Please contact Support if the issue persists.'')]
   \<and> map_option (\<lambda>r. length (versions_of r ''home'')) (findOne test_store ''R1'') = Some 1
   \<and> map_option (\<lambda>r. length (versions_of r ''home''))
        (findOne (snd (versions_new env_audit_down test_store user_A ''R1'' ''home'' spoofed_metadata)) ''R1'')
      = Some 2
   \<and> room_audit (snd (versions_new env_audit_down test_store user_A ''R1'' ''home'' spoofed_metadata))
      = room_audit test_store"
  by code_simp

subsection \<open>Denied requests\<close>




subsection \<open>Delegation of permissions\<close>









end
